theory Spec2Isabelle
  imports Complex_Main
begin

section \<open>Data model (quotes/models.py and the models it refers to)\<close>

text \<open>
  Primary keys are UUIDs; only their identity matters, so they are natural numbers.
  A UUID object is always truthy in Python, whatever its value. A date is its day number
  (\<open>date.toordinal()\<close>); Python's dates run from \<open>date.min\<close>, day 1, to \<open>date.max\<close>,
  day 3652059. A Python \<open>Decimal\<close> is the rational number it denotes; the arithmetic of
  \<open>quotes/pricing.py\<close> rounds it to the precision of the context (see there).
\<close>

type_synonym uuid = nat
type_synonym date = int
type_synonym Decimal = rat

text \<open>
  \<open>accounts.models.UserRole\<close>: the source names \<open>CUSTOMER\<close> and \<open>MANUFACTURER\<close>;
  every other role is \<open>OTHER_ROLE\<close>. Django compares model instances by primary key,
  so \<open>a == b\<close> on users is equality of \<open>user_pk\<close>. The request's user is a
  \<open>User option\<close>: \<open>None\<close> is the \<open>AnonymousUser\<close> (not authenticated, not staff,
  equal to no stored user).
\<close>

datatype UserRole = CUSTOMER | MANUFACTURER | OTHER_ROLE

record User =
  user_pk :: uuid
  is_staff :: bool
  role :: UserRole

text \<open>
  \<open>designs.models.DesignStatus\<close>: the source names \<open>PENDING_ANALYSIS\<close>,
  \<open>ANALYSIS_COMPLETE\<close> and \<open>ORDERED\<close>; every other member is
  \<open>OTHER_DESIGN_STATUS\<close>. The labels of the members are not in the source: the
  functions that print them take the labelling as a parameter.
\<close>

datatype DesignStatus = PENDING_ANALYSIS | ANALYSIS_COMPLETE | ORDERED | OTHER_DESIGN_STATUS

text \<open>
  A numeric field of a JSON document: a number, or a value that spells none (see
  \<open>quotes/pricing.py\<close> below, which reads the \<open>geometric_data\<close> of a design).
\<close>

datatype json_number = Num rat | NotNum

record Design =
  design_pk :: uuid
  customer :: uuid
  design_status :: DesignStatus
  material :: string
  geometric_data :: "(string \<times> json_number) list option"

datatype QuoteStatus = PENDING | ACCEPTED | REJECTED | EXPIRED

fun status_value :: "QuoteStatus \<Rightarrow> string" where
  "status_value PENDING = ''pending''"
| "status_value ACCEPTED = ''accepted''"
| "status_value REJECTED = ''rejected''"
| "status_value EXPIRED = ''expired''"

record Quote =
  quote_id :: uuid
  design_id :: uuid
  manufacturer_id :: uuid
  price_usd :: Decimal
  estimated_lead_time_days :: int
  status :: QuoteStatus
  quote_notes :: "string option"

text \<open>
  Modelled from the spec: \<open>orders/models.py\<close> is not among the sources, so the \<open>Order\<close>
  model and \<open>OrderStatus\<close> are missing. The fields are those that \<open>perform_update\<close>
  passes to \<open>Order.objects.create\<close> and those the spec lists in section 3 (one-to-one
  reference to the accepted quote, design, customer, manufacturer, total price, estimated
  delivery date, status with the initial value pending-payment).
\<close>

datatype OrderStatus = PENDING_PAYMENT | OTHER_ORDER_STATUS

record Order =
  order_id :: uuid
  order_design :: uuid
  accepted_quote :: uuid
  order_customer :: uuid
  order_manufacturer :: uuid
  order_total_price_usd :: Decimal
  order_status :: OrderStatus
  created_at :: date
  estimated_delivery_date :: "date option"

text \<open>The tables the views read and write.\<close>

record Database =
  designs :: "Design list"
  quotes :: "Quote list"
  orders :: "Order list"

text \<open>
  The exceptions: 401/403 from a permission class, 400 from a \<open>ValidationError\<close>, 404
  from a failed lookup, the database's \<open>IntegrityError\<close>, Python's \<open>OverflowError\<close>
  (a date out of range), and \<open>decimal.InvalidOperation\<close> and \<open>decimal.Overflow\<close>, the
  two signals of the default decimal context that can be raised in \<open>quotes/pricing.py\<close>.
\<close>

datatype error =
    NotAuthenticated
  | AuthorizationDenied string
  | ValidationFailed string
  | NotFound
  | IntegrityError
  | OverflowError
  | InvalidOperation
  | Overflow

text \<open>A permission class answers \<open>True\<close>, or \<open>False\<close> with the message it has set.\<close>

datatype permission = Allow | Deny string

definition quoted :: "string \<Rightarrow> string" where
  "quoted s = [CHR 0x27] @ s @ [CHR 0x27]"

definition double_quoted :: "string \<Rightarrow> string" where
  "double_quoted s = [CHR 0x22] @ s @ [CHR 0x22]"

definition Design_objects_get :: "Database \<Rightarrow> uuid \<Rightarrow> Design option" where
  "Design_objects_get db pk = find (\<lambda>d. design_pk d = pk) (designs db)"

definition Quote_objects_get :: "Database \<Rightarrow> uuid \<Rightarrow> Quote option" where
  "Quote_objects_get db pk = find (\<lambda>q. quote_id q = pk) (quotes db)"

text \<open>
  The body of a request, after the framework has parsed it: the raw value of
  \<open>status\<close>, the writable fields, and the number of keys that are none of these
  (\<open>len(request.data)\<close> counts them too). Parsing of the numeric fields is the
  framework's and is not modelled.
\<close>

record request_data =
  rd_status :: "string option"
  rd_price_usd :: "Decimal option"
  rd_estimated_lead_time_days :: "int option"
  rd_notes :: "string option option"
  rd_other_keys :: nat

definition len_data :: "request_data \<Rightarrow> nat" where
  "len_data d =
     (if rd_status d = None then 0 else 1) + (if rd_price_usd d = None then 0 else 1)
     + (if rd_estimated_lead_time_days d = None then 0 else 1)
     + (if rd_notes d = None then 0 else 1) + rd_other_keys d"

text \<open>\<open>serializer.validated_data\<close>: the writable fields that were sent, parsed.\<close>

record validated_data =
  vd_status :: "QuoteStatus option"
  vd_price_usd :: "Decimal option"
  vd_estimated_lead_time_days :: "int option"
  vd_notes :: "string option option"

section \<open>quotes/views.py: permissions\<close>

text \<open>\<open>IsQuoteOwnerOrDesignOwnerOrAdmin.has_object_permission\<close>\<close>

definition IsQuoteOwnerOrDesignOwnerOrAdmin :: "User option \<Rightarrow> Quote \<Rightarrow> Design \<Rightarrow> bool" where
  "IsQuoteOwnerOrDesignOwnerOrAdmin user obj design =
     (case user of None \<Rightarrow> False
      | Some u \<Rightarrow> if is_staff u then True
                  else manufacturer_id obj = user_pk u \<or> customer design = user_pk u)"

text \<open>
  \<open>CanCreateQuoteForDesign.has_permission\<close>. \<open>kw\<close> is \<open>view.kwargs.get('design_id')\<close>
  and \<open>label\<close> the labelling of \<open>DesignStatus\<close>.
\<close>

definition CanCreateQuoteForDesign_has_permission ::
  "(DesignStatus \<Rightarrow> string) \<Rightarrow> Database \<Rightarrow> User option \<Rightarrow> uuid option \<Rightarrow> permission" where
  "CanCreateQuoteForDesign_has_permission label db user kw =
     (case user of
        None \<Rightarrow> Deny ''Only authenticated manufacturers can create quotes.''
      | Some u \<Rightarrow>
          if role u \<noteq> MANUFACTURER
          then Deny ''Only authenticated manufacturers can create quotes.''
          else (case kw of
                  None \<Rightarrow> Deny ''Design ID not provided in URL.''
                | Some pk \<Rightarrow>
                    (case Design_objects_get db pk of
                       None \<Rightarrow> Deny ''Design not found.''
                     | Some design \<Rightarrow>
                         if customer design = user_pk u
                         then Deny ''Manufacturers cannot quote their own designs.''
                         else if design_status design \<noteq> ANALYSIS_COMPLETE
                         then Deny (''Design must be in '' @ quoted (label ANALYSIS_COMPLETE)
                                    @ '' status to receive quotes. Current status: ''
                                    @ label (design_status design) @ ''.'')
                         else Allow)))"

text \<open>
  \<open>CanUpdateQuote.has_object_permission\<close>. \<open>design\<close> is \<open>obj.design\<close>. The value of
  \<open>status\<close> in the body is the raw string; \<open>QuoteStatus\<close> members are strings, so the
  comparisons are on \<open>status_value\<close>.
\<close>

definition CanUpdateQuote_has_object_permission ::
  "User option \<Rightarrow> Quote \<Rightarrow> Design \<Rightarrow> request_data \<Rightarrow> permission" where
  "CanUpdateQuote_has_object_permission user obj design data =
     (case user of
        None \<Rightarrow> Deny ''You do not have permission to update this quote or perform this status change.''
      | Some u \<Rightarrow>
          if is_staff u then Allow
          else
            let is_design_owner = (customer design = user_pk u);
                is_quote_creator = (manufacturer_id obj = user_pk u)
            in
            if \<not> (is_design_owner \<or> is_quote_creator)
            then Deny ''You do not have permission to update this quote or perform this status change.''
            else
              (case rd_status data of
                 Some new_status \<Rightarrow>
                   if len_data data = 1 then
                     (if is_design_owner then
                        (if status obj = PENDING
                            \<and> (new_status = status_value ACCEPTED \<or> new_status = status_value REJECTED)
                         then Allow
                         else Deny (''Customer can only change status from Pending to Accepted/Rejected. Invalid transition from ''
                                    @ quoted (status_value (status obj)) @ '' to '' @ quoted new_status @ ''.''))
                      else
                        (if status obj = PENDING \<and> new_status = status_value EXPIRED
                         then Allow
                         else Deny (''Manufacturer cannot make this status transition from ''
                                    @ quoted (status_value (status obj)) @ '' to '' @ quoted new_status @ ''.'')))
                   else if is_quote_creator \<and> status obj = PENDING then
                     (if new_status \<noteq> status_value (status obj)
                      then Deny ''Manufacturer can only update details of a PENDING quote, or mark it EXPIRED.''
                      else Allow)
                   else Deny ''You cannot update this quote in its current state or with the provided data.''
               | None \<Rightarrow>
                   if is_quote_creator \<and> status obj = PENDING then Allow
                   else Deny ''You cannot update this quote in its current state or with the provided data.''))"

section \<open>quotes/serializers.py\<close>

text \<open>
  The \<open>status\<close> field is a choice field: a raw value that is no member's value is
  refused. \<open>partial\<close> is true for PATCH; otherwise the required fields must be there.
\<close>

definition parse_status :: "string \<Rightarrow> QuoteStatus option" where
  "parse_status s =
     (if s = status_value PENDING then Some PENDING
      else if s = status_value ACCEPTED then Some ACCEPTED
      else if s = status_value REJECTED then Some REJECTED
      else if s = status_value EXPIRED then Some EXPIRED
      else None)"

definition to_internal_value :: "bool \<Rightarrow> request_data \<Rightarrow> error + validated_data" where
  "to_internal_value partial data =
     (if \<not> partial \<and> (rd_price_usd data = None \<or> rd_estimated_lead_time_days data = None)
      then Inl (ValidationFailed ''This field is required.'')
      else
        (case rd_status data of
           None \<Rightarrow> Inr \<lparr>vd_status = None, vd_price_usd = rd_price_usd data,
                        vd_estimated_lead_time_days = rd_estimated_lead_time_days data,
                        vd_notes = rd_notes data\<rparr>
         | Some raw \<Rightarrow>
             (case parse_status raw of
                None \<Rightarrow> Inl (ValidationFailed (double_quoted raw @ '' is not a valid choice.''))
              | Some s \<Rightarrow> Inr \<lparr>vd_status = Some s, vd_price_usd = rd_price_usd data,
                              vd_estimated_lead_time_days = rd_estimated_lead_time_days data,
                              vd_notes = rd_notes data\<rparr>)))"

text \<open>
  \<open>QuoteSerializer.validate\<close>. \<open>design\<close> and \<open>manufacturer\<close> are read-only fields, so
  \<open>data.get\<close> finds neither and both come from the instance (\<open>None\<close> when creating).
  In a view the request and its user are always there.
\<close>

definition QuoteSerializer_validate ::
  "User option \<Rightarrow> (Quote \<times> Design) option \<Rightarrow> validated_data \<Rightarrow> error + validated_data" where
  "QuoteSerializer_validate user inst data =
     (case inst of
        None \<Rightarrow> Inr data
      | Some (instance, design) \<Rightarrow>
          if customer design = manufacturer_id instance
          then Inl (ValidationFailed ''A manufacturer cannot create a quote for their own design.'')
          else
            (case vd_status data of
               None \<Rightarrow> Inr data
             | Some new_status \<Rightarrow>
                 let current_status = status instance in
                 if (case user of None \<Rightarrow> False | Some u \<Rightarrow> user_pk u = customer design) then
                   (if current_status = PENDING \<and> new_status \<noteq> ACCEPTED \<and> new_status \<noteq> REJECTED
                    then Inl (ValidationFailed (''Customer can only change status to Accepted or Rejected from Pending. Invalid transition to ''
                                                @ status_value new_status @ ''.''))
                    else Inr data)
                 else if (case user of None \<Rightarrow> False | Some u \<Rightarrow> user_pk u = manufacturer_id instance) then
                   (if new_status \<noteq> current_status \<and> new_status \<noteq> EXPIRED
                    then Inl (ValidationFailed (''Manufacturer cannot change status to ''
                                                @ status_value new_status @ '' this way.''))
                    else Inr data)
                 else Inl (ValidationFailed ''You do not have permission to change the status of this quote.'')))"

section \<open>quotes/views.py: creating a quote\<close>

text \<open>
  \<open>serializer.save(design=design, manufacturer=self.request.user)\<close> inserts a row; its
  key \<open>new_id\<close> is the \<open>uuid4\<close> drawn for it. The model's columns \<open>price_usd\<close> and
  \<open>estimated_lead_time_days\<close> are not nullable and the key is unique.
\<close>

definition serializer_save_create ::
  "uuid \<Rightarrow> Database \<Rightarrow> Design \<Rightarrow> User \<Rightarrow> validated_data \<Rightarrow> error + Database" where
  "serializer_save_create new_id db design u data =
     (case (vd_price_usd data, vd_estimated_lead_time_days data) of
        (Some p, Some l) \<Rightarrow>
          if list_ex (\<lambda>q. quote_id q = new_id) (quotes db) then Inl IntegrityError
          else Inr (db\<lparr>quotes :=
                 quotes db @ [\<lparr>quote_id = new_id, design_id = design_pk design,
                               manufacturer_id = user_pk u, price_usd = p,
                               estimated_lead_time_days = l,
                               status = (case vd_status data of None \<Rightarrow> PENDING | Some s \<Rightarrow> s),
                               quote_notes = (case vd_notes data of None \<Rightarrow> None | Some n \<Rightarrow> n)\<rparr>]\<rparr>)
      | _ \<Rightarrow> Inl IntegrityError)"

text \<open>\<open>QuoteListCreateView.perform_create\<close>\<close>

definition perform_create ::
  "uuid \<Rightarrow> Database \<Rightarrow> User \<Rightarrow> uuid option \<Rightarrow> validated_data \<Rightarrow> error + Database" where
  "perform_create new_id db u kw data =
     (case (case kw of None \<Rightarrow> None | Some pk \<Rightarrow> Design_objects_get db pk) of
        None \<Rightarrow> Inl NotFound
      | Some design \<Rightarrow>
          if list_ex (\<lambda>q. design_id q = design_pk design \<and> manufacturer_id q = user_pk u) (quotes db)
          then Inl (ValidationFailed ''You have already submitted a quote for this design.'')
          else serializer_save_create new_id db design u data)"

text \<open>
  POST on \<open>QuoteListCreateView\<close>, in the order the framework runs it: the permission
  classes \<open>IsAuthenticated\<close> and \<open>CanCreateQuoteForDesign\<close>, the serializer's
  validation, then \<open>perform_create\<close>.
\<close>

definition QuoteListCreateView_post ::
  "(DesignStatus \<Rightarrow> string) \<Rightarrow> uuid \<Rightarrow> Database \<Rightarrow> User option \<Rightarrow> uuid option \<Rightarrow> request_data
     \<Rightarrow> error + Database" where
  "QuoteListCreateView_post label new_id db user kw body =
     (case user of
        None \<Rightarrow> Inl NotAuthenticated
      | Some u \<Rightarrow>
          (case CanCreateQuoteForDesign_has_permission label db user kw of
             Deny msg \<Rightarrow> Inl (AuthorizationDenied msg)
           | Allow \<Rightarrow>
               (case to_internal_value False body of
                  Inl e \<Rightarrow> Inl e
                | Inr attrs \<Rightarrow>
                    (case QuoteSerializer_validate user None attrs of
                       Inl e \<Rightarrow> Inl e
                     | Inr data \<Rightarrow> perform_create new_id db u kw data))))"

section \<open>quotes/views.py: updating a quote and accepting it\<close>

text \<open>
  \<open>serializer.save()\<close> on an existing instance: the fields sent are set on the
  instance and the instance is saved (the row with its key is replaced; a key the table
  does not hold is inserted).
\<close>

definition ModelSerializer_update :: "Quote \<Rightarrow> validated_data \<Rightarrow> Quote" where
  "ModelSerializer_update q data =
     q\<lparr>price_usd := (case vd_price_usd data of None \<Rightarrow> price_usd q | Some p \<Rightarrow> p),
       estimated_lead_time_days :=
         (case vd_estimated_lead_time_days data of None \<Rightarrow> estimated_lead_time_days q | Some l \<Rightarrow> l),
       status := (case vd_status data of None \<Rightarrow> status q | Some s \<Rightarrow> s),
       quote_notes := (case vd_notes data of None \<Rightarrow> quote_notes q | Some n \<Rightarrow> n)\<rparr>"

definition Quote_save :: "Database \<Rightarrow> Quote \<Rightarrow> Database" where
  "Quote_save db q =
     db\<lparr>quotes :=
          (if list_ex (\<lambda>r. quote_id r = quote_id q) (quotes db)
           then map (\<lambda>r. if quote_id r = quote_id q then q else r) (quotes db)
           else quotes db @ [q])\<rparr>"

text \<open>
  \<open>hasattr(updated_quote, 'order_created_from')\<close>: an order made from this quote
  exists. \<open>order_created_from\<close> is the reverse accessor of the one-to-one field
  \<open>Order.accepted_quote\<close> (declared in \<open>orders/models.py\<close>, which is missing; the
  log message of the guard and the tests read it that way).
\<close>

definition has_order_created_from :: "Database \<Rightarrow> Quote \<Rightarrow> bool" where
  "has_order_created_from db q = list_ex (\<lambda>ord. accepted_quote ord = quote_id q) (orders db)"

text \<open>
  Modelled from the spec: \<open>orders/models.py\<close> is not among the sources, so the \<open>Order\<close>
  model and its manager's \<open>create\<close> are missing. The spec (sections 3 and 4.4, step 3b)
  gives the order its initial status pending-payment; the source passes the other fields.
  \<open>new_id\<close> is the key drawn for the row and \<open>today\<close> the date of creation; as for a
  quote, the key is unique, and the insertion of a key that the table holds raises
  \<open>IntegrityError\<close>.
\<close>

definition Order_objects_create :: "uuid \<Rightarrow> date \<Rightarrow> Database \<Rightarrow> Design \<Rightarrow> Quote \<Rightarrow> error + Order" where
  "Order_objects_create new_id today db design updated_quote =
     (if list_ex (\<lambda>ord. order_id ord = new_id) (orders db) then Inl IntegrityError
      else Inr \<lparr>order_id = new_id,
                order_design = design_pk design,
                accepted_quote = quote_id updated_quote,
                order_customer = customer design,
                order_manufacturer = manufacturer_id updated_quote,
                order_total_price_usd = price_usd updated_quote,
                order_status = PENDING_PAYMENT,
                created_at = today,
                estimated_delivery_date = None\<rparr>)"

text \<open>
  \<open>d + timedelta(days=n)\<close> on a Python \<open>date\<close>: \<open>timedelta\<close> takes at most 999999999
  days either way, and the sum is a date between \<open>date.min\<close> and \<open>date.max\<close>; both raise
  \<open>OverflowError\<close> otherwise.
\<close>

definition date_min :: date where
  "date_min = 1"

definition date_max :: date where
  "date_max = 3652059"

definition date_add_days :: "date \<Rightarrow> int \<Rightarrow> error + date" where
  "date_add_days d n =
     (if n < - 999999999 \<or> 999999999 < n then Inl OverflowError
      else if d + n < date_min \<or> date_max < d + n then Inl OverflowError
      else Inr (d + n))"

text \<open>
  Modelled from the spec: \<open>Order.calculate_and_set_estimated_delivery\<close> is defined in
  \<open>orders/models.py\<close>, which is missing. The spec (section 4.4, step 3c): the estimated
  delivery date is the order's creation date plus the quote's lead-time days. The test
  \<open>test_customer_accept_quote\<close> computes it as a \<open>date\<close> plus a \<open>timedelta\<close>, so it is
  a Python date and the addition can raise.
\<close>

definition calculate_and_set_estimated_delivery :: "Order \<Rightarrow> int \<Rightarrow> error + Order" where
  "calculate_and_set_estimated_delivery ord quote_lead_time_days =
     (case date_add_days (created_at ord) quote_lead_time_days of
        Inl e \<Rightarrow> Inl e
      | Inr day \<Rightarrow> Inr (ord\<lparr>estimated_delivery_date := Some day\<rparr>))"

text \<open>\<open>updated_quote.design.save(update_fields=['status', 'updated_at'])\<close>\<close>

definition Design_save_status :: "Database \<Rightarrow> uuid \<Rightarrow> DesignStatus \<Rightarrow> Database" where
  "Design_save_status db pk s =
     db\<lparr>designs := map (\<lambda>d. if design_pk d = pk then d\<lparr>design_status := s\<rparr> else d) (designs db)\<rparr>"

text \<open>
  The loop over \<open>other_pending_quotes\<close>: every pending quote of the design but the
  accepted one is saved as rejected.
\<close>

definition reject_other_pending :: "Database \<Rightarrow> uuid \<Rightarrow> uuid \<Rightarrow> Database" where
  "reject_other_pending db dpk accepted_id =
     db\<lparr>quotes :=
          map (\<lambda>q. if design_id q = dpk \<and> status q = PENDING \<and> quote_id q \<noteq> accepted_id
                    then q\<lparr>status := REJECTED\<rparr> else q) (quotes db)\<rparr>"

text \<open>
  The statements of \<open>with transaction.atomic():\<close> in \<open>perform_update\<close>: the guard
  (which returns from the method, so the block commits having written nothing), then the
  order is created and given its delivery date, the design is saved as ordered, and the
  other pending quotes are rejected. The result is the database the block commits, or the
  exception that leaves the block.
\<close>

definition atomic_block :: "date \<Rightarrow> uuid \<Rightarrow> Database \<Rightarrow> Design \<Rightarrow> Quote \<Rightarrow> error + Database" where
  "atomic_block today new_order_id db1 design updated_quote =
     (if has_order_created_from db1 updated_quote then Inr db1
      else
        (case Order_objects_create new_order_id today db1 design updated_quote of
           Inl e \<Rightarrow> Inl e
         | Inr created \<Rightarrow>
             (case calculate_and_set_estimated_delivery created
                     (estimated_lead_time_days updated_quote) of
                Inl e \<Rightarrow> Inl e
              | Inr ord \<Rightarrow>
                  let db2 = db1\<lparr>orders := orders db1 @ [ord]\<rparr>;
                      db3 = (if design_status design \<noteq> ORDERED
                             then Design_save_status db2 (design_pk design) ORDERED else db2)
                  in Inr (reject_other_pending db3 (design_pk design) (quote_id updated_quote)))))"

text \<open>
  \<open>QuoteDetailView.perform_update\<close>. \<open>inst\<close> is \<open>serializer.instance\<close> with the design
  loaded with it. The quote is saved before the atomic block. An exception in the block
  rolls back what the block wrote and is caught by \<open>except Exception\<close>, which logs it:
  the method returns and the database is the one after the quote was saved.
\<close>

definition perform_update ::
  "date \<Rightarrow> uuid \<Rightarrow> Database \<Rightarrow> Quote \<times> Design \<Rightarrow> validated_data \<Rightarrow> Database" where
  "perform_update today new_order_id db inst data =
     (let quote_instance = fst inst;
          design = snd inst;
          original_status = status quote_instance;
          new_status = (case vd_status data of None \<Rightarrow> original_status | Some s \<Rightarrow> s);
          updated_quote = ModelSerializer_update quote_instance data;
          db1 = Quote_save db updated_quote
      in
      if original_status \<noteq> ACCEPTED \<and> new_status = ACCEPTED then
        (case atomic_block today new_order_id db1 design updated_quote of
           Inl e \<Rightarrow> db1
         | Inr db' \<Rightarrow> db')
      else db1)"

text \<open>
  \<open>get_object\<close> of \<open>QuoteDetailView\<close>: the queryset joins the quote with its design
  (\<open>select_related\<close>), so a quote whose design row is gone is not found.
\<close>

definition get_object :: "Database \<Rightarrow> uuid \<Rightarrow> (Quote \<times> Design) option" where
  "get_object db pk =
     (case Quote_objects_get db pk of
        None \<Rightarrow> None
      | Some q \<Rightarrow> (case Design_objects_get db (design_id q) of
                     None \<Rightarrow> None
                   | Some d \<Rightarrow> Some (q, d)))"

text \<open>
  PUT and PATCH on \<open>QuoteDetailView\<close>, in the order the framework runs them:
  \<open>IsAuthenticated\<close>, the lookup, \<open>CanUpdateQuote.has_object_permission\<close>, the
  serializer's validation, then \<open>perform_update\<close>. \<open>partial\<close> is true for PATCH.
\<close>

definition QuoteDetailView_update ::
  "bool \<Rightarrow> date \<Rightarrow> uuid \<Rightarrow> Database \<Rightarrow> User option \<Rightarrow> uuid \<Rightarrow> request_data \<Rightarrow> error + Database" where
  "QuoteDetailView_update partial today new_order_id db user pk body =
     (case user of
        None \<Rightarrow> Inl NotAuthenticated
      | Some u \<Rightarrow>
          (case get_object db pk of
             None \<Rightarrow> Inl NotFound
           | Some inst \<Rightarrow>
               (case CanUpdateQuote_has_object_permission user (fst inst) (snd inst) body of
                  Deny msg \<Rightarrow> Inl (AuthorizationDenied msg)
                | Allow \<Rightarrow>
                    (case to_internal_value partial body of
                       Inl e \<Rightarrow> Inl e
                     | Inr attrs \<Rightarrow>
                         (case QuoteSerializer_validate user (Some inst) attrs of
                            Inl e \<Rightarrow> Inl e
                          | Inr data \<Rightarrow> Inr (perform_update today new_order_id db inst data))))))"

text \<open>\<open>QuoteDetailView.perform_destroy\<close>, after \<open>IsQuoteOwnerOrDesignOwnerOrAdmin\<close>.\<close>

definition perform_destroy :: "Database \<Rightarrow> User \<Rightarrow> Quote \<Rightarrow> error + Database" where
  "perform_destroy db u inst_q =
     (if \<not> (is_staff u \<or> (manufacturer_id inst_q = user_pk u \<and> status inst_q = PENDING))
      then Inl (AuthorizationDenied ''You can only delete PENDING quotes that you created.'')
      else Inr (db\<lparr>quotes := filter (\<lambda>r. quote_id r \<noteq> quote_id inst_q) (quotes db)\<rparr>))"

section \<open>The objects of quotes/tests.py\<close>

text \<open>
  The users, designs and quote that \<open>QuoteAPITests.setUp\<close> creates; the examples
  below run on them.
\<close>

definition customer1 :: User where
  "customer1 = \<lparr>user_pk = 1, is_staff = False, role = CUSTOMER\<rparr>"

definition manufacturer1 :: User where
  "manufacturer1 = \<lparr>user_pk = 2, is_staff = False, role = MANUFACTURER\<rparr>"

definition manufacturer2 :: User where
  "manufacturer2 = \<lparr>user_pk = 3, is_staff = False, role = MANUFACTURER\<rparr>"

definition admin_user :: User where
  "admin_user = \<lparr>user_pk = 4, is_staff = True, role = OTHER_ROLE\<rparr>"

definition design_c1_analyzed :: Design where
  "design_c1_analyzed =
     \<lparr>design_pk = 10, customer = 1, design_status = ANALYSIS_COMPLETE,
      material = ''PLA'', geometric_data = Some [(''volume_cm3'', Num 100)]\<rparr>"

definition design_c1_pending :: Design where
  "design_c1_pending =
     \<lparr>design_pk = 11, customer = 1, design_status = PENDING_ANALYSIS,
      material = ''ABS'', geometric_data = None\<rparr>"

definition quote_mf1_design_c1 :: Quote where
  "quote_mf1_design_c1 =
     \<lparr>quote_id = 20, design_id = 10, manufacturer_id = 2, price_usd = 150,
      estimated_lead_time_days = 10, status = PENDING, quote_notes = None\<rparr>"

definition setUp :: Database where
  "setUp = \<lparr>designs = [design_c1_analyzed, design_c1_pending],
             quotes = [quote_mf1_design_c1], orders = []\<rparr>"

text \<open>A body that holds \<open>status\<close> alone, and the labelling used in the examples.\<close>

definition status_only :: "string \<Rightarrow> request_data" where
  "status_only s = \<lparr>rd_status = Some s, rd_price_usd = None,
                     rd_estimated_lead_time_days = None, rd_notes = None, rd_other_keys = 0\<rparr>"

definition example_label :: "DesignStatus \<Rightarrow> string" where
  "example_label s =
     (case s of PENDING_ANALYSIS \<Rightarrow> ''Pending Analysis'' | ANALYSIS_COMPLETE \<Rightarrow> ''Analysis Complete''
      | ORDERED \<Rightarrow> ''Ordered'' | OTHER_DESIGN_STATUS \<Rightarrow> ''Other'')"

text \<open>The invariant of the quotes table: a design has at most one quote of a manufacturer.\<close>

definition one_quote_per_pair :: "Database \<Rightarrow> bool" where
  "one_quote_per_pair db = distinct (map (\<lambda>q. (design_id q, manufacturer_id q)) (quotes db))"

text \<open>The primary key of the quotes table is unique.\<close>

definition quote_ids_distinct :: "Database \<Rightarrow> bool" where
  "quote_ids_distinct db = distinct (map quote_id (quotes db))"

text \<open>The validated fields of the second POST of \<open>test_manufacturer_cannot_quote_same_design_twice\<close>.\<close>

definition second_quote_data :: validated_data where
  "second_quote_data = \<lparr>vd_status = None, vd_price_usd = Some 180,
                         vd_estimated_lead_time_days = Some 8, vd_notes = None\<rparr>"

definition second_quote_body :: request_data where
  "second_quote_body = \<lparr>rd_status = None, rd_price_usd = Some 180,
                         rd_estimated_lead_time_days = Some 8, rd_notes = None, rd_other_keys = 0\<rparr>"

text \<open>The invariant of the orders table: a quote has at most one order.\<close>

definition one_order_per_quote :: "Database \<Rightarrow> bool" where
  "one_order_per_quote db = distinct (map accepted_quote (orders db))"

text \<open>
  The order that \<open>perform_update\<close> creates for the saved quote \<open>uq\<close> of design \<open>d\<close>:
  \<open>Order_objects_create\<close> followed by \<open>calculate_and_set_estimated_delivery\<close>.
\<close>

definition the_order :: "date \<Rightarrow> uuid \<Rightarrow> Quote \<Rightarrow> Design \<Rightarrow> Order" where
  "the_order today new_order_id uq d =
     \<lparr>order_id = new_order_id, order_design = design_pk d, accepted_quote = quote_id uq,
      order_customer = customer d, order_manufacturer = manufacturer_id uq,
      order_total_price_usd = price_usd uq, order_status = PENDING_PAYMENT,
      created_at = today,
      estimated_delivery_date = Some (today + estimated_lead_time_days uq)\<rparr>"

text \<open>
  The atomic block of \<open>perform_update\<close> raises nothing for the saved quote \<open>uq\<close>: the key
  drawn for the order is not in the table, and the day of creation plus the lead-time days
  is a date.
\<close>

definition block_commits :: "date \<Rightarrow> uuid \<Rightarrow> Database \<Rightarrow> Quote \<Rightarrow> bool" where
  "block_commits today new_order_id db uq =
     (\<not> list_ex (\<lambda>ord. order_id ord = new_order_id) (orders db)
      \<and> - 999999999 \<le> estimated_lead_time_days uq \<and> estimated_lead_time_days uq \<le> 999999999
      \<and> date_min \<le> today + estimated_lead_time_days uq
      \<and> today + estimated_lead_time_days uq \<le> date_max)"

text \<open>
  The validated body of \<open>test_customer_accept_quote\<close>, its second quote, and the states
  the examples run on: the order made on day 100, the state after the quote was accepted,
  and a state where the quote is pending again (with a new price) while its order exists.
\<close>

definition accept_data :: validated_data where
  "accept_data = \<lparr>vd_status = Some ACCEPTED, vd_price_usd = None,
                   vd_estimated_lead_time_days = None, vd_notes = None\<rparr>"

definition staff_customer :: User where
  "staff_customer = \<lparr>user_pk = 1, is_staff = True, role = CUSTOMER\<rparr>"

definition staff_manufacturer :: User where
  "staff_manufacturer = \<lparr>user_pk = 2, is_staff = True, role = MANUFACTURER\<rparr>"

definition first_order :: Order where
  "first_order = \<lparr>order_id = 30, order_design = 10, accepted_quote = 20, order_customer = 1,
      order_manufacturer = 2, order_total_price_usd = 150, order_status = PENDING_PAYMENT,
      created_at = 100, estimated_delivery_date = Some 110\<rparr>"

definition reaccept_db :: Database where
  "reaccept_db = \<lparr>designs = [design_c1_analyzed\<lparr>design_status := ORDERED\<rparr>, design_c1_pending],
                   quotes = [quote_mf1_design_c1\<lparr>price_usd := 160\<rparr>],
                   orders = [first_order]\<rparr>"

definition quote_mf2_design_c1 :: Quote where
  "quote_mf2_design_c1 =
     \<lparr>quote_id = 21, design_id = 10, manufacturer_id = 3, price_usd = 180,
      estimated_lead_time_days = 12, status = PENDING, quote_notes = None\<rparr>"

definition two_quotes_db :: Database where
  "two_quotes_db = setUp\<lparr>quotes := [quote_mf1_design_c1, quote_mf2_design_c1]\<rparr>"

text \<open>
  The state of \<open>two_quotes_db\<close> with a lead time of 3000000 days for the first quote.
\<close>

definition slow_quote :: Quote where
  "slow_quote = quote_mf1_design_c1\<lparr>estimated_lead_time_days := 3000000\<rparr>"

definition slow_quotes_db :: Database where
  "slow_quotes_db = setUp\<lparr>quotes := [slow_quote, quote_mf2_design_c1]\<rparr>"

definition price_body :: request_data where
  "price_body = \<lparr>rd_status = None, rd_price_usd = Some 160,
                  rd_estimated_lead_time_days = None, rd_notes = None, rd_other_keys = 0\<rparr>"

definition accepted_db :: Database where
  "accepted_db = \<lparr>designs = [design_c1_analyzed\<lparr>design_status := ORDERED\<rparr>, design_c1_pending],
                   quotes = [quote_mf1_design_c1\<lparr>status := ACCEPTED\<rparr>],
                   orders = [first_order]\<rparr>"

text \<open>A body that holds \<open>status\<close> and \<open>notes\<close>, and a state whose quote is rejected.\<close>

definition notes_and_status :: "string \<Rightarrow> request_data" where
  "notes_and_status s = \<lparr>rd_status = Some s, rd_price_usd = None,
       rd_estimated_lead_time_days = None, rd_notes = Some (Some ''ok''), rd_other_keys = 0\<rparr>"

definition rejected_db :: Database where
  "rejected_db = setUp\<lparr>quotes := [quote_mf1_design_c1\<lparr>status := REJECTED\<rparr>]\<rparr>"

section \<open>quotes/pricing.py\<close>

text \<open>
  The inputs of \<open>calculate_quote_price\<close> are typed as the function reads them. A JSON
  object is an association list (its keys are distinct). The function reads a numeric
  field \<open>x\<close> only through \<open>Decimal(str(x))\<close>, so such a field is \<open>Num r\<close> when \<open>x\<close> is a
  JSON number, or a string that spells one, and \<open>r\<close> the number its digits denote (the
  constructor is exact, whatever the precision of the context), and \<open>NotNum\<close> when
  \<open>str(x)\<close> spells no number (\<open>null\<close>, \<open>true\<close>, \<open>false\<close>, an array, an object, any other
  string), for which the constructor raises \<open>InvalidOperation\<close>. Strings that spell an
  infinity or a NaN are not part of the model; JSON has no number for them. The
  capabilities of a manufacturer hold the optional key \<open>pricing_factors\<close>, whose object
  holds the optional keys \<open>material_properties\<close>, \<open>machining\<close> and
  \<open>estimated_lead_time_base_days\<close>; the last one may be any JSON scalar, since the
  function tests it with \<open>isinstance\<close>. In Python a \<open>bool\<close> is an \<open>int\<close> (\<open>True\<close> is 1).
  The floats written into \<open>calculation_details\<close> are the numbers they are made from.
\<close>

datatype json_scalar = JInt int | JBool bool | JFloat rat | JStr string | JNull

fun as_int :: "json_scalar \<Rightarrow> int option" where
  "as_int (JInt n) = Some n"
| "as_int (JBool b) = Some (if b then 1 else 0)"
| "as_int (JFloat r) = None"
| "as_int (JStr s) = None"
| "as_int JNull = None"

record PricingFactors =
  material_properties :: "(string \<times> (string \<times> json_number) list) list option"
  machining :: "(string \<times> json_number) list option"
  estimated_lead_time_base_days :: "json_scalar option"

record Capabilities =
  pricing_factors :: "PricingFactors option"

record Manufacturer =
  capabilities :: "Capabilities option"
  markup_factor :: Decimal

record PricingDetails =
  pd_price_usd :: "Decimal option"
  pd_estimated_lead_time_days :: "int option"
  calculation_details :: "(string \<times> rat) list"
  errors :: "string list"

text \<open>\<open>Decimal(str(d.get(k, 0)))\<close>\<close>

definition Decimal_get :: "(string \<times> json_number) list \<Rightarrow> string \<Rightarrow> error + Decimal" where
  "Decimal_get d k =
     (case map_of d k of
        None \<Rightarrow> Inr 0
      | Some (Num x) \<Rightarrow> Inr x
      | Some NotNum \<Rightarrow> Inl InvalidOperation)"

subsection \<open>The decimal context\<close>

text \<open>
  The module never sets a context, so the arithmetic is that of Python's default
  context: precision 28, rounding \<open>ROUND_HALF_EVEN\<close>, \<open>Emax\<close> 999999, \<open>Emin\<close> -999999
  (so that \<open>Etiny\<close>, \<open>Emin - prec + 1\<close>, is -1000026), with the traps \<open>InvalidOperation\<close>,
  \<open>DivisionByZero\<close> and \<open>Overflow\<close>. The result of \<open>+\<close>, \<open>*\<close> and \<open>/\<close> is the exact result
  rounded to the context. Whatever the function returns or tests depends on the numbers
  only, not on the exponents they are written with.
\<close>

definition prec :: nat where
  "prec = 28"

definition Emax :: int where
  "Emax = 999999"

definition Etiny :: int where
  "Etiny = - 1000026"

text \<open>The number of decimal digits of an integer that is not negative.\<close>

function ndigits :: "int \<Rightarrow> int" where
  "ndigits n = (if n < 10 then 1 else 1 + ndigits (n div 10))"
  by pat_completeness auto
termination
  by (relation "measure nat") auto

text \<open>
  \<open>x.adjusted()\<close> for \<open>x\<close> other than 0: the exponent of the leading digit, that is the
  \<open>a\<close> with \<open>10 ^ a \<le> |x| < 10 ^ (a + 1)\<close>.
\<close>

definition adjusted :: "rat \<Rightarrow> int" where
  "adjusted x =
     (if 1 \<le> \<bar>x\<bar> then ndigits \<lfloor>\<bar>x\<bar>\<rfloor> - 1
      else - ndigits (\<lceil>1 / \<bar>x\<bar>\<rceil> - 1))"

text \<open>\<open>ROUND_HALF_EVEN\<close> and \<open>ROUND_HALF_UP\<close>, to an integer.\<close>

definition round_half_even :: "rat \<Rightarrow> int" where
  "round_half_even y =
     (if y - of_int \<lfloor>y\<rfloor> < 1 / 2 then \<lfloor>y\<rfloor>
      else if 1 / 2 < y - of_int \<lfloor>y\<rfloor> then \<lfloor>y\<rfloor> + 1
      else if even \<lfloor>y\<rfloor> then \<lfloor>y\<rfloor> else \<lfloor>y\<rfloor> + 1)"

definition round_half_up :: "rat \<Rightarrow> int" where
  "round_half_up y = (if 0 \<le> y then \<lfloor>y + 1 / 2\<rfloor> else - \<lfloor>- y + 1 / 2\<rfloor>)"

text \<open>
  \<open>Decimal._fix(context)\<close> on the exact result \<open>x\<close> of an operation: \<open>x\<close> is rounded to
  \<open>prec\<close> significant digits, or at \<open>Etiny\<close> when it is that small, and a result whose
  leading digit lies above \<open>Emax\<close> raises \<open>Overflow\<close>.
\<close>

definition Decimal_fix :: "rat \<Rightarrow> error + Decimal" where
  "Decimal_fix x =
     (if x = 0 then Inr 0
      else
        let q = max (adjusted x - (int prec - 1)) Etiny;
            r = of_int (round_half_even (x / 10 powi q)) * 10 powi q
        in if r \<noteq> 0 \<and> Emax < adjusted r then Inl Overflow else Inr r)"

definition Decimal_mul :: "Decimal \<Rightarrow> Decimal \<Rightarrow> error + Decimal" where
  "Decimal_mul x y = Decimal_fix (x * y)"

definition Decimal_add :: "Decimal \<Rightarrow> Decimal \<Rightarrow> error + Decimal" where
  "Decimal_add x y = Decimal_fix (x + y)"

text \<open>\<open>x / y\<close> for a divisor other than 0, as it is in the one division of the module.\<close>

definition Decimal_truediv :: "Decimal \<Rightarrow> Decimal \<Rightarrow> error + Decimal" where
  "Decimal_truediv x y = Decimal_fix (x / y)"

text \<open>
  \<open>x.quantize(Decimal("0.01"), ROUND_HALF_UP)\<close>: to the cent, halves away from zero. The
  method raises \<open>InvalidOperation\<close> when the coefficient of the result, the number of cents,
  has more than \<open>prec\<close> digits.
\<close>

definition quantize :: "Decimal \<Rightarrow> error + Decimal" where
  "quantize x =
     (let cents = round_half_up (x * 100)
      in if 10 ^ prec \<le> \<bar>cents\<bar> then Inl InvalidOperation else Inr (of_int cents / 100))"

subsection \<open>The function\<close>

text \<open>
  \<open>manufacturer.capabilities or {}\<close> and the three \<open>get\<close>s with the default \<open>{}\<close>.
\<close>

definition get_pricing_factors :: "Manufacturer \<Rightarrow> PricingFactors" where
  "get_pricing_factors manufacturer =
     (case capabilities manufacturer of
        None \<Rightarrow> \<lparr>material_properties = None, machining = None, estimated_lead_time_base_days = None\<rparr>
      | Some caps \<Rightarrow>
          (case pricing_factors caps of
             None \<Rightarrow> \<lparr>material_properties = None, machining = None,
                       estimated_lead_time_base_days = None\<rparr>
           | Some pf \<Rightarrow> pf))"

definition get_material_properties_map ::
  "PricingFactors \<Rightarrow> (string \<times> (string \<times> json_number) list) list" where
  "get_material_properties_map pf = (case material_properties pf of None \<Rightarrow> [] | Some m \<Rightarrow> m)"

definition get_machining_factors :: "PricingFactors \<Rightarrow> (string \<times> json_number) list" where
  "get_machining_factors pf = (case machining pf of None \<Rightarrow> [] | Some m \<Rightarrow> m)"

text \<open>
  Section 2 of the function, "Calculate Material Cost": from the errors and details so
  far to the material cost and the errors and details after it, or to the exception that
  a statement of the section raises.
\<close>

definition material_cost_section ::
  "string \<Rightarrow> Decimal \<Rightarrow> (string \<times> (string \<times> json_number) list) list \<Rightarrow> string list
     \<Rightarrow> (string \<times> rat) list \<Rightarrow> error + Decimal \<times> string list \<times> (string \<times> rat) list" where
  "material_cost_section design_material_name volume_cm3 material_properties_map errs details =
     (case map_of material_properties_map design_material_name of
        Some props \<Rightarrow>
          (case Decimal_get props ''density_g_cm3'' of
             Inl e \<Rightarrow> Inl e
           | Inr density_g_cm3 \<Rightarrow>
          (case Decimal_get props ''cost_usd_kg'' of
             Inl e \<Rightarrow> Inl e
           | Inr cost_usd_kg \<Rightarrow>
               let errs1 = (if density_g_cm3 \<le> 0
                            then errs @ [''Density for material '' @ quoted design_material_name
                                         @ '' must be positive.'']
                            else errs);
                   errs2 = (if cost_usd_kg < 0
                            then errs1 @ [''Cost per kg for material '' @ quoted design_material_name
                                          @ '' must be non-negative.'']
                            else errs1)
               in if errs2 = [] then
                    (case Decimal_truediv cost_usd_kg 1000 of
                       Inl e \<Rightarrow> Inl e
                     | Inr cost_usd_g \<Rightarrow>
                    (case Decimal_mul volume_cm3 density_g_cm3 of
                       Inl e \<Rightarrow> Inl e
                     | Inr volume_density \<Rightarrow>
                    (case Decimal_mul volume_density cost_usd_g of
                       Inl e \<Rightarrow> Inl e
                     | Inr material_cost \<Rightarrow>
                    (case quantize material_cost of
                       Inl e \<Rightarrow> Inl e
                     | Inr rounded \<Rightarrow>
                         Inr (material_cost, errs2,
                              details @ [(''material_volume_cm3'', volume_cm3),
                                         (''material_density_g_cm3'', density_g_cm3),
                                         (''material_cost_usd_kg'', cost_usd_kg),
                                         (''calculated_material_cost_usd'', rounded)])))))
                  else Inr (0, errs2, details)))
      | None \<Rightarrow>
          Inr (0, errs @ [''Manufacturer does not have pricing information for material: ''
                          @ design_material_name], details))"

text \<open>Section 3, "Calculate Machine Time Cost".\<close>

definition machine_time_cost_section ::
  "Decimal \<Rightarrow> (string \<times> json_number) list \<Rightarrow> string list \<Rightarrow> (string \<times> rat) list
     \<Rightarrow> error + Decimal \<times> string list \<times> (string \<times> rat) list" where
  "machine_time_cost_section complexity_score machining_factors errs details =
     (case Decimal_get machining_factors ''base_time_cost_unit'' of
        Inl e \<Rightarrow> Inl e
      | Inr base_time_cost_unit \<Rightarrow>
     (case Decimal_get machining_factors ''time_multiplier_complexity_cost_unit'' of
        Inl e \<Rightarrow> Inl e
      | Inr time_multiplier_complexity_cost_unit \<Rightarrow>
          let errs1 = (if base_time_cost_unit < 0
                       then errs @ [''Base time cost unit cannot be negative.''] else errs);
              errs2 = (if time_multiplier_complexity_cost_unit < 0
                       then errs1 @ [''Time multiplier cost unit cannot be negative.''] else errs1)
          in if errs2 = [] then
               (case Decimal_mul complexity_score time_multiplier_complexity_cost_unit of
                  Inl e \<Rightarrow> Inl e
                | Inr complexity_cost \<Rightarrow>
               (case Decimal_add base_time_cost_unit complexity_cost of
                  Inl e \<Rightarrow> Inl e
                | Inr machine_time_cost \<Rightarrow>
               (case quantize machine_time_cost of
                  Inl e \<Rightarrow> Inl e
                | Inr rounded \<Rightarrow>
                    Inr (machine_time_cost, errs2,
                         details @ [(''machining_base_time_cost_unit'', base_time_cost_unit),
                                    (''design_complexity_score'', complexity_score),
                                    (''machining_time_multiplier_cost_unit'',
                                     time_multiplier_complexity_cost_unit),
                                    (''calculated_machine_time_cost_units'', rounded)]))))
             else Inr (0, errs2, details)))"

text \<open>Section 4, "Calculate Total Price": the final price is \<open>None\<close> when there are errors.\<close>

definition total_price_section ::
  "Decimal \<Rightarrow> Decimal \<Rightarrow> Decimal \<Rightarrow> string list \<Rightarrow> (string \<times> rat) list
     \<Rightarrow> error + Decimal option \<times> string list \<times> (string \<times> rat) list" where
  "total_price_section material_cost machine_time_cost manufacturer_markup errs details =
     (case Decimal_add material_cost machine_time_cost of
        Inl e \<Rightarrow> Inl e
      | Inr total_price_before_markup \<Rightarrow>
     (case quantize total_price_before_markup of
        Inl e \<Rightarrow> Inl e
      | Inr rounded \<Rightarrow>
          let details1 = details @ [(''total_price_before_markup_usd'', rounded)];
              errs1 = (if manufacturer_markup \<le> 0
                       then errs @ [''Manufacturer markup factor must be positive.''] else errs)
          in if errs1 = [] then
               (case Decimal_mul total_price_before_markup manufacturer_markup of
                  Inl e \<Rightarrow> Inl e
                | Inr total_price \<Rightarrow>
               (case quantize total_price of
                  Inl e \<Rightarrow> Inl e
                | Inr final_price_usd \<Rightarrow>
                    Inr (Some final_price_usd, errs1,
                         details1 @ [(''manufacturer_markup_factor'', manufacturer_markup),
                                     (''final_total_price_usd'', final_price_usd)])))
             else Inr (None, errs1, details1)))"

text \<open>Section 5, "Determine Estimated Lead Time".\<close>

definition lead_time_section :: "PricingFactors \<Rightarrow> int" where
  "lead_time_section pf =
     (case as_int (case estimated_lead_time_base_days pf of None \<Rightarrow> JInt 7 | Some v \<Rightarrow> v) of
        None \<Rightarrow> 7
      | Some n \<Rightarrow> if n < 0 then 7 else n)"

text \<open>
  \<open>calculate_quote_price\<close>: the \<open>PricingDetails\<close> it returns, or the exception it raises.
\<close>

definition calculate_quote_price :: "Design \<Rightarrow> Manufacturer \<Rightarrow> error + PricingDetails" where
  "calculate_quote_price design manufacturer =
     (case geometric_data design of
        None \<Rightarrow> Inr \<lparr>pd_price_usd = None, pd_estimated_lead_time_days = None,
                      calculation_details = [],
                      errors = [''Design geometric data is missing or incomplete.'']\<rparr>
      | Some geometric \<Rightarrow>
          if geometric = []
          then Inr \<lparr>pd_price_usd = None, pd_estimated_lead_time_days = None,
                    calculation_details = [],
                    errors = [''Design geometric data is missing or incomplete.'']\<rparr>
          else
            (case Decimal_get geometric ''volume_cm3'' of
               Inl e \<Rightarrow> Inl e
             | Inr volume_cm3 \<Rightarrow>
            (case Decimal_get geometric ''complexity_score'' of
               Inl e \<Rightarrow> Inl e
             | Inr complexity_score \<Rightarrow>
                let design_material_name = material design;
                    errs0 = (if volume_cm3 \<le> 0 then [''Design volume must be a positive value.'']
                             else []);
                    pf = get_pricing_factors manufacturer;
                    material_properties_map = get_material_properties_map pf;
                    machining_factors = get_machining_factors pf;
                    manufacturer_markup = markup_factor manufacturer
                in
                (case material_cost_section design_material_name volume_cm3 material_properties_map
                        errs0 [] of
                   Inl e \<Rightarrow> Inl e
                 | Inr (material_cost, errs2, details2) \<Rightarrow>
                (case machine_time_cost_section complexity_score machining_factors errs2 details2 of
                   Inl e \<Rightarrow> Inl e
                 | Inr (machine_time_cost, errs3, details3) \<Rightarrow>
                (case total_price_section material_cost machine_time_cost manufacturer_markup
                        errs3 details3 of
                   Inl e \<Rightarrow> Inl e
                 | Inr (final_price_usd, errs4, details4) \<Rightarrow>
                     let lead_days = lead_time_section pf;
                         details5 = details4 @ [(''estimated_lead_time_days'', of_int lead_days)]
                     in if errs4 \<noteq> []
                        then Inr \<lparr>pd_price_usd = None, pd_estimated_lead_time_days = None,
                                  calculation_details = details5, errors = errs4\<rparr>
                        else Inr \<lparr>pd_price_usd = final_price_usd,
                                  pd_estimated_lead_time_days = Some lead_days,
                                  calculation_details = details5, errors = []\<rparr>))))))"

text \<open>
  The manufacturer and the design of the pricing example of the specification: density 2
  and unit cost 10 for the design's material, base time cost 5, time multiplier 2,
  mark-up 1.5; volume 100 and complexity score 3.
\<close>

definition example_manufacturer :: Manufacturer where
  "example_manufacturer =
     \<lparr>capabilities = Some \<lparr>pricing_factors = Some
        \<lparr>material_properties =
           Some [(''PLA'', [(''density_g_cm3'', Num 2), (''cost_usd_kg'', Num 10)])],
         machining = Some [(''base_time_cost_unit'', Num 5),
                           (''time_multiplier_complexity_cost_unit'', Num 2)],
         estimated_lead_time_base_days = None\<rparr>\<rparr>,
      markup_factor = 3 / 2\<rparr>"

definition example_design :: Design where
  "example_design =
     design_c1_analyzed\<lparr>geometric_data :=
       Some [(''volume_cm3'', Num 100), (''complexity_score'', Num 3)]\<rparr>"











section \<open>Properties\<close>

lemmas fixture_defs = customer1_def manufacturer1_def manufacturer2_def admin_user_def
  design_c1_analyzed_def design_c1_pending_def quote_mf1_design_c1_def setUp_def

lemma Design_objects_get_pk:
  "Design_objects_get db pk = Some d \<Longrightarrow> design_pk d = pk \<and> d \<in> set (designs db)"
  unfolding Design_objects_get_def by (auto simp: find_Some_iff)

subsection \<open>Creating a quote\<close>

text \<open>
  C4. The create check of \<open>CanCreateQuoteForDesign\<close> passes exactly when the actor is
  an authenticated user with the manufacturer role, the target design exists, the actor
  does not own it and its status is analysis complete. In particular a POST for a design
  whose status is not analysis complete ends with \<open>AuthorizationDenied\<close> for every user,
  and so does a POST by the owner of the design, whatever the design's status.
\<close>

theorem create_permission_iff:
  "(CanCreateQuoteForDesign_has_permission label db user kw = Allow \<longleftrightarrow>
     (\<exists>u pk d. user = Some u \<and> role u = MANUFACTURER \<and> kw = Some pk
        \<and> Design_objects_get db pk = Some d \<and> customer d \<noteq> user_pk u
        \<and> design_status d = ANALYSIS_COMPLETE))
   \<and> (\<forall>u pk d body new_id.
         Design_objects_get db pk = Some d \<longrightarrow> design_status d \<noteq> ANALYSIS_COMPLETE \<longrightarrow>
         (\<exists>msg. QuoteListCreateView_post label new_id db (Some u) (Some pk) body
                  = Inl (AuthorizationDenied msg)))
   \<and> (\<forall>u pk d body new_id.
         Design_objects_get db pk = Some d \<longrightarrow> customer d = user_pk u \<longrightarrow>
         (\<exists>msg. QuoteListCreateView_post label new_id db (Some u) (Some pk) body
                  = Inl (AuthorizationDenied msg)))"
proof (intro conjI allI impI)
  show "CanCreateQuoteForDesign_has_permission label db user kw = Allow \<longleftrightarrow>
     (\<exists>u pk d. user = Some u \<and> role u = MANUFACTURER \<and> kw = Some pk
        \<and> Design_objects_get db pk = Some d \<and> customer d \<noteq> user_pk u
        \<and> design_status d = ANALYSIS_COMPLETE)"
    unfolding CanCreateQuoteForDesign_has_permission_def
    by (auto split: option.splits)
next
  fix u :: User and pk d body new_id
  assume "Design_objects_get db pk = Some d" "design_status d \<noteq> ANALYSIS_COMPLETE"
  then show "\<exists>msg. QuoteListCreateView_post label new_id db (Some u) (Some pk) body
                  = Inl (AuthorizationDenied msg)"
    unfolding QuoteListCreateView_post_def CanCreateQuoteForDesign_has_permission_def
    by simp
next
  fix u :: User and pk d body new_id
  assume "Design_objects_get db pk = Some d" "customer d = user_pk u"
  then show "\<exists>msg. QuoteListCreateView_post label new_id db (Some u) (Some pk) body
                  = Inl (AuthorizationDenied msg)"
    unfolding QuoteListCreateView_post_def CanCreateQuoteForDesign_has_permission_def
    by simp
qed

theorem create_permission_iff_witness:
  "CanCreateQuoteForDesign_has_permission example_label setUp (Some manufacturer2) (Some 10) = Allow
   \<and> Design_objects_get setUp 11 = Some design_c1_pending
   \<and> design_status design_c1_pending \<noteq> ANALYSIS_COMPLETE
   \<and> (\<exists>msg. QuoteListCreateView_post example_label 21 setUp (Some manufacturer1) (Some 11)
          \<lparr>rd_status = None, rd_price_usd = Some 100, rd_estimated_lead_time_days = Some 5,
            rd_notes = None, rd_other_keys = 0\<rparr> = Inl (AuthorizationDenied msg))"
proof -
  have g: "Design_objects_get setUp 11 = Some design_c1_pending"
    by (simp add: Design_objects_get_def fixture_defs)
  have n: "design_status design_c1_pending \<noteq> ANALYSIS_COMPLETE"
    by (simp add: fixture_defs)
  have g10: "Design_objects_get setUp 10 = Some design_c1_analyzed"
    by (simp add: Design_objects_get_def fixture_defs)
  note T = create_permission_iff [of example_label setUp "Some manufacturer2" "Some 10"]
  have a: "CanCreateQuoteForDesign_has_permission example_label setUp (Some manufacturer2) (Some 10) = Allow"
    using T g10 by (simp add: fixture_defs)
  have b: "\<exists>msg. QuoteListCreateView_post example_label 21 setUp (Some manufacturer1) (Some 11)
          \<lparr>rd_status = None, rd_price_usd = Some 100, rd_estimated_lead_time_days = Some 5,
            rd_notes = None, rd_other_keys = 0\<rparr> = Inl (AuthorizationDenied msg)"
    using T g n by blast
  show ?thesis using a b g n by simp
qed

lemma perform_create_duplicate:
  assumes "Design_objects_get db pk = Some d"
    and "list_ex (\<lambda>q. design_id q = pk \<and> manufacturer_id q = user_pk u) (quotes db)"
  shows "perform_create new_id db u (Some pk) data
           = Inl (ValidationFailed ''You have already submitted a quote for this design.'')"
proof -
  have "design_pk d = pk" using assms(1) Design_objects_get_pk by blast
  then show ?thesis using assms unfolding perform_create_def by simp
qed

lemma post_duplicate:
  assumes "list_ex (\<lambda>q. design_id q = pk \<and> manufacturer_id q = user_pk u) (quotes db)"
  shows "\<exists>e. QuoteListCreateView_post label new_id db (Some u) (Some pk) body = Inl e"
proof (cases "CanCreateQuoteForDesign_has_permission label db (Some u) (Some pk)")
  case (Deny msg)
  then show ?thesis unfolding QuoteListCreateView_post_def by simp
next
  case Allow
  then obtain d where d: "Design_objects_get db pk = Some d"
    unfolding CanCreateQuoteForDesign_has_permission_def
    by (auto split: option.splits if_splits)
  show ?thesis
  proof (cases "to_internal_value False body")
    case (Inl e)
    then show ?thesis using Allow unfolding QuoteListCreateView_post_def by simp
  next
    case (Inr attrs)
    then show ?thesis
      using Allow perform_create_duplicate [OF d assms]
      unfolding QuoteListCreateView_post_def QuoteSerializer_validate_def by simp
  qed
qed

lemma perform_create_Inr:
  assumes "perform_create new_id db u kw data = Inr db'"
  shows "\<exists>pk d q. kw = Some pk \<and> Design_objects_get db pk = Some d
           \<and> \<not> list_ex (\<lambda>q. design_id q = pk \<and> manufacturer_id q = user_pk u) (quotes db)
           \<and> db' = db\<lparr>quotes := quotes db @ [q]\<rparr> \<and> design_id q = pk \<and> manufacturer_id q = user_pk u
           \<and> quote_id q = new_id"
proof -
  from assms obtain pk d where k: "kw = Some pk" and d: "Design_objects_get db pk = Some d"
    unfolding perform_create_def by (auto split: option.splits)
  have pk: "design_pk d = pk" using d Design_objects_get_pk by blast
  from assms k d pk have nd: "\<not> list_ex (\<lambda>q. design_id q = pk \<and> manufacturer_id q = user_pk u) (quotes db)"
    and sv: "serializer_save_create new_id db d u data = Inr db'"
    unfolding perform_create_def by (auto split: if_splits)
  from sv pk obtain q where "db' = db\<lparr>quotes := quotes db @ [q]\<rparr>" "design_id q = pk"
      "manufacturer_id q = user_pk u" "quote_id q = new_id"
    unfolding serializer_save_create_def by (auto split: option.splits if_splits)
  with k d nd show ?thesis by blast
qed

text \<open>
  C5. When a quote of the manufacturer for the design exists, \<open>perform_create\<close> raises
  the validation error "already submitted" and the POST as a whole ends in an error, so
  nothing is written; and a successful \<open>perform_create\<close> keeps the invariant that a
  (design, manufacturer) pair has at most one quote.
\<close>

theorem duplicate_quote_refused:
  "(\<forall>d. Design_objects_get db pk = Some d \<longrightarrow>
        list_ex (\<lambda>q. design_id q = pk \<and> manufacturer_id q = user_pk u) (quotes db) \<longrightarrow>
        perform_create new_id db u (Some pk) data
          = Inl (ValidationFailed ''You have already submitted a quote for this design.''))
   \<and> (list_ex (\<lambda>q. design_id q = pk \<and> manufacturer_id q = user_pk u) (quotes db) \<longrightarrow>
        (\<exists>e. QuoteListCreateView_post label new_id db (Some u) (Some pk) body = Inl e))
   \<and> (\<forall>db'. one_quote_per_pair db \<longrightarrow> perform_create new_id db u kw data = Inr db' \<longrightarrow>
        one_quote_per_pair db')"
proof (intro conjI allI impI)
  fix d
  assume "Design_objects_get db pk = Some d"
    "list_ex (\<lambda>q. design_id q = pk \<and> manufacturer_id q = user_pk u) (quotes db)"
  then show "perform_create new_id db u (Some pk) data
          = Inl (ValidationFailed ''You have already submitted a quote for this design.'')"
    by (rule perform_create_duplicate)
next
  assume "list_ex (\<lambda>q. design_id q = pk \<and> manufacturer_id q = user_pk u) (quotes db)"
  then show "\<exists>e. QuoteListCreateView_post label new_id db (Some u) (Some pk) body = Inl e"
    by (rule post_duplicate)
next
  fix db'
  assume inv: "one_quote_per_pair db" and r: "perform_create new_id db u kw data = Inr db'"
  from perform_create_Inr [OF r] obtain pk' q where
    nd: "\<not> list_ex (\<lambda>q. design_id q = pk' \<and> manufacturer_id q = user_pk u) (quotes db)"
    and db': "db' = db\<lparr>quotes := quotes db @ [q]\<rparr>" and q: "design_id q = pk'" "manufacturer_id q = user_pk u"
    by blast
  have "(design_id q, manufacturer_id q) \<notin> set (map (\<lambda>q. (design_id q, manufacturer_id q)) (quotes db))"
    using nd q by (auto simp: list_ex_iff)
  then show "one_quote_per_pair db'"
    using inv db' unfolding one_quote_per_pair_def by simp
qed

theorem duplicate_quote_refused_witness:
  "perform_create 21 setUp manufacturer1 (Some 10) second_quote_data
     = Inl (ValidationFailed ''You have already submitted a quote for this design.'')
   \<and> (\<exists>e. QuoteListCreateView_post example_label 21 setUp (Some manufacturer1) (Some 10)
              second_quote_body = Inl e)
   \<and> one_quote_per_pair setUp
   \<and> (\<exists>db'. perform_create 21 setUp manufacturer2 (Some 10) second_quote_data = Inr db'
             \<and> one_quote_per_pair db')"
proof -
  have g: "Design_objects_get setUp 10 = Some design_c1_analyzed"
    by (simp add: Design_objects_get_def fixture_defs)
  have ex: "list_ex (\<lambda>q. design_id q = 10 \<and> manufacturer_id q = user_pk manufacturer1) (quotes setUp)"
    by (simp add: fixture_defs)
  have inv: "one_quote_per_pair setUp"
    by (simp add: one_quote_per_pair_def fixture_defs)
  have ok: "\<exists>db'. perform_create 21 setUp manufacturer2 (Some 10) second_quote_data = Inr db'"
    by (simp add: perform_create_def serializer_save_create_def second_quote_data_def
        Design_objects_get_def fixture_defs)
  note T1 = duplicate_quote_refused [of setUp 10 manufacturer1 21 second_quote_data example_label
      second_quote_body "Some 10"]
  note T2 = duplicate_quote_refused [of setUp 10 manufacturer2 21 second_quote_data example_label
      second_quote_body "Some 10"]
  from T1 g ex have a: "perform_create 21 setUp manufacturer1 (Some 10) second_quote_data
     = Inl (ValidationFailed ''You have already submitted a quote for this design.'')"
    by blast
  from T1 ex have b: "\<exists>e. QuoteListCreateView_post example_label 21 setUp (Some manufacturer1) (Some 10)
              second_quote_body = Inl e"
    by blast
  from T2 inv ok have c: "\<exists>db'. perform_create 21 setUp manufacturer2 (Some 10) second_quote_data = Inr db'
             \<and> one_quote_per_pair db'"
    by blast
  show ?thesis using a b inv c by blast
qed

text \<open>
  C8. The duplicate check of \<open>perform_create\<close> reads neither the status of the existing
  quote nor the orders: whatever statuses \<open>f\<close> the quotes have and whatever orders \<open>os\<close>
  exist, a further quote of the same manufacturer for the same design is refused with the
  "already submitted" validation error, and the POST as a whole ends in an error.
\<close>

theorem duplicate_check_ignores_status:
  assumes "q \<in> set (quotes db)" "design_id q = pk" "manufacturer_id q = user_pk u"
    and "Design_objects_get db pk = Some d"
  shows "perform_create new_id (db\<lparr>quotes := map (\<lambda>r. r\<lparr>status := f r\<rparr>) (quotes db), orders := os\<rparr>)
             u (Some pk) data
           = Inl (ValidationFailed ''You have already submitted a quote for this design.'')
         \<and> (\<exists>e. QuoteListCreateView_post label new_id
                   (db\<lparr>quotes := map (\<lambda>r. r\<lparr>status := f r\<rparr>) (quotes db), orders := os\<rparr>)
                   (Some u) (Some pk) body = Inl e)"
proof -
  let ?db = "db\<lparr>quotes := map (\<lambda>r. r\<lparr>status := f r\<rparr>) (quotes db), orders := os\<rparr>"
  have g: "Design_objects_get ?db pk = Some d"
    using assms(4) unfolding Design_objects_get_def by simp
  have "q\<lparr>status := f q\<rparr> \<in> set (quotes ?db)" using assms(1) by simp
  then have ex: "list_ex (\<lambda>q. design_id q = pk \<and> manufacturer_id q = user_pk u) (quotes ?db)"
    using assms(2,3) unfolding list_ex_iff
    by (intro bexI [of _ "q\<lparr>status := f q\<rparr>"]) simp_all
  show ?thesis
    using perform_create_duplicate [OF g ex] post_duplicate [OF ex] by blast
qed

theorem duplicate_check_ignores_status_witness:
  "quote_mf1_design_c1 \<in> set (quotes setUp)
   \<and> perform_create 21
        (setUp\<lparr>quotes := map (\<lambda>r. r\<lparr>status := REJECTED\<rparr>) (quotes setUp), orders := []\<rparr>)
        manufacturer1 (Some 10) second_quote_data
      = Inl (ValidationFailed ''You have already submitted a quote for this design.'')
   \<and> (\<exists>e. QuoteListCreateView_post example_label 21
              (setUp\<lparr>quotes := map (\<lambda>r. r\<lparr>status := REJECTED\<rparr>) (quotes setUp), orders := []\<rparr>)
              (Some manufacturer1) (Some 10) second_quote_body = Inl e)"
proof -
  have m: "quote_mf1_design_c1 \<in> set (quotes setUp)"
    by (simp add: fixture_defs)
  have d: "design_id quote_mf1_design_c1 = 10"
    and u: "manufacturer_id quote_mf1_design_c1 = user_pk manufacturer1"
    by (simp_all add: fixture_defs)
  have g: "Design_objects_get setUp 10 = Some design_c1_analyzed"
    by (simp add: Design_objects_get_def fixture_defs)
  show ?thesis
    using m duplicate_check_ignores_status [OF m d u g, where new_id = 21 and f = "\<lambda>r. REJECTED"
        and os = "[]" and data = second_quote_data and label = example_label
        and body = second_quote_body]
    by blast
qed

subsection \<open>Updating a quote\<close>

lemma find_map_key:
  assumes "\<And>x. P (g x) = P x"
  shows "find P (map g xs) = map_option g (find P xs)"
  using assms by (induction xs) auto

lemma get_object_Some:
  assumes "get_object db pk = Some (q, d)"
  shows "Quote_objects_get db pk = Some q" "Design_objects_get db (design_id q) = Some d"
    "quote_id q = pk" "q \<in> set (quotes db)" "design_pk d = design_id q"
proof -
  from assms show a: "Quote_objects_get db pk = Some q"
    unfolding get_object_def by (auto split: option.splits)
  from assms show b: "Design_objects_get db (design_id q) = Some d"
    unfolding get_object_def by (auto split: option.splits)
  from a show "quote_id q = pk" "q \<in> set (quotes db)"
    unfolding Quote_objects_get_def by (auto simp: find_Some_iff)
  from b show "design_pk d = design_id q" using Design_objects_get_pk by blast
qed

lemma Quote_save_frame [simp]:
  "orders (Quote_save db q) = orders db" "designs (Quote_save db q) = designs db"
  unfolding Quote_save_def by simp_all

lemma has_order_Quote_save [simp]:
  "has_order_created_from (Quote_save db q') q = has_order_created_from db q"
  unfolding has_order_created_from_def by simp

lemma ModelSerializer_update_keys [simp]:
  "quote_id (ModelSerializer_update q data) = quote_id q"
  "design_id (ModelSerializer_update q data) = design_id q"
  "manufacturer_id (ModelSerializer_update q data) = manufacturer_id q"
  "status (ModelSerializer_update q data) = (case vd_status data of None \<Rightarrow> status q | Some s \<Rightarrow> s)"
  unfolding ModelSerializer_update_def by simp_all

lemma has_order_update [simp]:
  "has_order_created_from db (ModelSerializer_update q data) = has_order_created_from db q"
  unfolding has_order_created_from_def by simp

lemma atomic_block_eq:
  "atomic_block today oid db1 d uq =
     (if has_order_created_from db1 uq then Inr db1
      else if block_commits today oid db1 uq then
        Inr (reject_other_pending
               (let db2 = db1\<lparr>orders := orders db1 @ [the_order today oid uq d]\<rparr>
                in if design_status d \<noteq> ORDERED then Design_save_status db2 (design_pk d) ORDERED
                   else db2)
               (design_pk d) (quote_id uq))
      else if list_ex (\<lambda>ord. order_id ord = oid) (orders db1) then Inl IntegrityError
      else Inl OverflowError)"
  unfolding atomic_block_def block_commits_def Order_objects_create_def
    calculate_and_set_estimated_delivery_def date_add_days_def the_order_def Let_def
  by auto

lemma block_commits_Quote_save [simp]:
  "block_commits today oid (Quote_save db q') uq = block_commits today oid db uq"
  unfolding block_commits_def by simp

lemma perform_update_accept:
  assumes "status q \<noteq> ACCEPTED" "vd_status data = Some ACCEPTED" "\<not> has_order_created_from db q"
    and "block_commits today oid db (ModelSerializer_update q data)"
  shows "perform_update today oid db (q, d) data =
           reject_other_pending
             (let db2 = (Quote_save db (ModelSerializer_update q data))
                          \<lparr>orders := orders db @ [the_order today oid (ModelSerializer_update q data) d]\<rparr>
              in if design_status d \<noteq> ORDERED then Design_save_status db2 (design_pk d) ORDERED else db2)
             (design_pk d) (quote_id q)"
  using assms unfolding perform_update_def atomic_block_eq Let_def by simp

lemma perform_update_other:
  assumes "status q = ACCEPTED \<or> vd_status data \<noteq> Some ACCEPTED \<or> has_order_created_from db q
           \<or> \<not> block_commits today oid db (ModelSerializer_update q data)"
  shows "perform_update today oid db (q, d) data = Quote_save db (ModelSerializer_update q data)"
  using assms unfolding perform_update_def atomic_block_eq Let_def
  by (auto split: option.splits)

lemma orders_perform_update:
  "orders (perform_update today oid db (q, d) data) =
     (if status q \<noteq> ACCEPTED \<and> vd_status data = Some ACCEPTED \<and> \<not> has_order_created_from db q
         \<and> block_commits today oid db (ModelSerializer_update q data)
      then orders db @ [the_order today oid (ModelSerializer_update q data) d]
      else orders db)"
proof (cases "status q \<noteq> ACCEPTED \<and> vd_status data = Some ACCEPTED \<and> \<not> has_order_created_from db q
    \<and> block_commits today oid db (ModelSerializer_update q data)")
  case True
  then show ?thesis
    by (simp add: perform_update_accept reject_other_pending_def Let_def Design_save_status_def)
next
  case False
  then have "status q = ACCEPTED \<or> vd_status data \<noteq> Some ACCEPTED \<or> has_order_created_from db q
      \<or> \<not> block_commits today oid db (ModelSerializer_update q data)"
    by blast
  from perform_update_other [OF this] False show ?thesis by auto
qed

lemma update_Inr:
  assumes "QuoteDetailView_update partial today oid db user pk body = Inr db'"
  shows "\<exists>inst data. get_object db pk = Some inst \<and> db' = perform_update today oid db inst data"
  using assms unfolding QuoteDetailView_update_def
  by (auto split: option.splits permission.splits sum.splits)

lemma quotes_perform_update_accept:
  assumes "status q \<noteq> ACCEPTED" "vd_status data = Some ACCEPTED" "\<not> has_order_created_from db q"
    and "block_commits today oid db (ModelSerializer_update q data)"
  shows "quotes (perform_update today oid db (q, d) data) =
           map (\<lambda>r. if design_id r = design_pk d \<and> status r = PENDING \<and> quote_id r \<noteq> quote_id q
                     then r\<lparr>status := REJECTED\<rparr> else r)
               (quotes (Quote_save db (ModelSerializer_update q data)))"
  and "designs (perform_update today oid db (q, d) data) =
         (if design_status d \<noteq> ORDERED
          then map (\<lambda>x. if design_pk x = design_pk d then x\<lparr>design_status := ORDERED\<rparr> else x) (designs db)
          else designs db)"
  using assms
  by (simp_all add: perform_update_accept reject_other_pending_def Let_def Design_save_status_def)

lemmas update_defs = QuoteDetailView_update_def get_object_def Quote_objects_get_def
  Design_objects_get_def CanUpdateQuote_has_object_permission_def len_data_def
  to_internal_value_def parse_status_def QuoteSerializer_validate_def perform_update_def
  ModelSerializer_update_def Quote_save_def has_order_created_from_def atomic_block_def
  Order_objects_create_def calculate_and_set_estimated_delivery_def date_add_days_def
  date_min_def date_max_def Design_save_status_def reject_other_pending_def status_only_def

text \<open>
  C2. An update of a quote that is already accepted leaves the orders as they are; the
  orders only change on the edge from a status other than accepted to accepted, and then
  only when no order of the quote exists. So \<open>perform_update\<close>, and with it every PUT and
  PATCH, keeps the invariant that a quote has at most one order.
\<close>

theorem reaccept_creates_no_second_order:
  "(status q = ACCEPTED \<longrightarrow> orders (perform_update today oid db (q, d) data) = orders db)
   \<and> (orders (perform_update today oid db (q, d) data) \<noteq> orders db \<longrightarrow>
        status q \<noteq> ACCEPTED \<and> vd_status data = Some ACCEPTED \<and> \<not> has_order_created_from db q)
   \<and> (one_order_per_quote db \<longrightarrow> one_order_per_quote (perform_update today oid db (q, d) data))
   \<and> (\<forall>db'. QuoteDetailView_update partial today oid db user pk body = Inr db' \<longrightarrow>
         (one_order_per_quote db \<longrightarrow> one_order_per_quote db')
         \<and> ((\<exists>q0 d0. get_object db pk = Some (q0, d0) \<and> status q0 = ACCEPTED) \<longrightarrow> orders db' = orders db))"
proof -
  have inv: "one_order_per_quote (perform_update today' oid' db (q', d') data')"
    if "one_order_per_quote db" for today' oid' q' d' data'
  proof (cases "status q' \<noteq> ACCEPTED \<and> vd_status data' = Some ACCEPTED \<and> \<not> has_order_created_from db q'")
    case True
    then have "quote_id q' \<notin> set (map accepted_quote (orders db))"
      unfolding has_order_created_from_def by (auto simp: list_ex_iff)
    then show ?thesis
      using that True unfolding one_order_per_quote_def orders_perform_update
      by (simp add: the_order_def)
  next
    case False
    then show ?thesis
      using that unfolding one_order_per_quote_def orders_perform_update by auto
  qed
  show ?thesis
  proof (intro conjI allI impI)
    assume "status q = ACCEPTED"
    then show "orders (perform_update today oid db (q, d) data) = orders db"
      by (simp add: orders_perform_update)
  next
    assume "orders (perform_update today oid db (q, d) data) \<noteq> orders db"
    then have "status q \<noteq> ACCEPTED \<and> vd_status data = Some ACCEPTED \<and> \<not> has_order_created_from db q"
      unfolding orders_perform_update by (auto split: if_splits)
    then show "status q \<noteq> ACCEPTED" "vd_status data = Some ACCEPTED" "\<not> has_order_created_from db q"
      by simp_all
  next
    assume "one_order_per_quote db"
    then show "one_order_per_quote (perform_update today oid db (q, d) data)" by (rule inv)
  next
    fix db'
    assume r: "QuoteDetailView_update partial today oid db user pk body = Inr db'"
      and i: "one_order_per_quote db"
    from update_Inr [OF r] obtain inst data' where "db' = perform_update today oid db inst data'"
      by blast
    then show "one_order_per_quote db'" using inv [OF i, of today oid "fst inst" "snd inst" data']
      by simp
  next
    fix db'
    assume r: "QuoteDetailView_update partial today oid db user pk body = Inr db'"
      and a: "\<exists>q0 d0. get_object db pk = Some (q0, d0) \<and> status q0 = ACCEPTED"
    from a obtain q0 d0 where g: "get_object db pk = Some (q0, d0)" and s: "status q0 = ACCEPTED"
      by blast
    from update_Inr [OF r] g obtain data' where "db' = perform_update today oid db (q0, d0) data'"
      by auto
    then show "orders db' = orders db" using s by (simp add: orders_perform_update)
  qed
qed

theorem reaccept_creates_no_second_order_witness:
  "status (quote_mf1_design_c1\<lparr>status := ACCEPTED\<rparr>) = ACCEPTED
   \<and> one_order_per_quote accepted_db
   \<and> orders (perform_update 200 31 accepted_db
                (quote_mf1_design_c1\<lparr>status := ACCEPTED\<rparr>,
                 design_c1_analyzed\<lparr>design_status := ORDERED\<rparr>) accept_data) = orders accepted_db
   \<and> one_order_per_quote (perform_update 200 31 accepted_db
                (quote_mf1_design_c1\<lparr>status := ACCEPTED\<rparr>,
                 design_c1_analyzed\<lparr>design_status := ORDERED\<rparr>) accept_data)
   \<and> (\<exists>db'. QuoteDetailView_update True 200 31 accepted_db (Some staff_customer) 20
                (status_only ''accepted'') = Inr db'
             \<and> orders db' = orders accepted_db \<and> one_order_per_quote db')"
proof -
  let ?q = "quote_mf1_design_c1\<lparr>status := ACCEPTED\<rparr>"
  let ?d = "design_c1_analyzed\<lparr>design_status := ORDERED\<rparr>"
  have s: "status ?q = ACCEPTED" by simp
  have i: "one_order_per_quote accepted_db"
    by (simp add: one_order_per_quote_def accepted_db_def)
  have g: "\<exists>q0 d0. get_object accepted_db 20 = Some (q0, d0) \<and> status q0 = ACCEPTED"
    by (simp add: get_object_def Quote_objects_get_def Design_objects_get_def accepted_db_def
        fixture_defs)
  have p: "\<exists>db'. QuoteDetailView_update True 200 31 accepted_db (Some staff_customer) 20
                (status_only ''accepted'') = Inr db'"
    by (simp add: update_defs accepted_db_def fixture_defs staff_customer_def)
  then obtain db' where db': "QuoteDetailView_update True 200 31 accepted_db (Some staff_customer) 20
                (status_only ''accepted'') = Inr db'" by blast
  note T = reaccept_creates_no_second_order [of ?q 200 31 accepted_db ?d accept_data True
      "Some staff_customer" 20 "status_only ''accepted''"]
  from T s have a: "orders (perform_update 200 31 accepted_db (?q, ?d) accept_data) = orders accepted_db"
    by blast
  from T i have b: "one_order_per_quote (perform_update 200 31 accepted_db (?q, ?d) accept_data)"
    by blast
  from T db' i g have c: "orders db' = orders accepted_db \<and> one_order_per_quote db'"
    by blast
  show ?thesis using s i a b db' c by blast
qed

lemma block_commitsI:
  assumes "\<not> list_ex (\<lambda>ord. order_id ord = oid) (orders db)"
    and "date_min \<le> today" "today \<le> date_max"
    and "date_min \<le> today + estimated_lead_time_days uq"
    and "today + estimated_lead_time_days uq \<le> date_max"
  shows "block_commits today oid db uq"
  using assms unfolding block_commits_def date_min_def date_max_def by simp

lemma perform_update_cascade:
  assumes "q \<in> set (quotes db)" and "status q \<noteq> ACCEPTED" and "vd_status data = Some ACCEPTED"
    and "\<not> has_order_created_from db q"
    and "block_commits today oid db (ModelSerializer_update q data)"
  shows "perform_update today oid db (q, d) data =
           \<lparr>designs =
              (if design_status d \<noteq> ORDERED
               then map (\<lambda>x. if design_pk x = design_pk d then x\<lparr>design_status := ORDERED\<rparr> else x)
                      (designs db)
               else designs db),
            quotes =
              map (\<lambda>r. if quote_id r = quote_id q then ModelSerializer_update q data
                        else if design_id r = design_pk d \<and> status r = PENDING
                        then r\<lparr>status := REJECTED\<rparr> else r)
                (quotes db),
            orders = orders db @ [the_order today oid (ModelSerializer_update q data) d]\<rparr>"
proof -
  have mem: "list_ex (\<lambda>r. quote_id r = quote_id q) (quotes db)"
    using assms(1) by (auto simp: list_ex_iff)
  have "quotes (perform_update today oid db (q, d) data) =
          map (\<lambda>r. if quote_id r = quote_id q then ModelSerializer_update q data
                    else if design_id r = design_pk d \<and> status r = PENDING
                    then r\<lparr>status := REJECTED\<rparr> else r)
            (quotes db)"
    unfolding quotes_perform_update_accept(1) [OF assms(2-5)]
    using mem assms(3) unfolding Quote_save_def by simp
  moreover note quotes_perform_update_accept(2) [OF assms(2-5), of d]
  moreover have "orders (perform_update today oid db (q, d) data) =
      orders db @ [the_order today oid (ModelSerializer_update q data) d]"
    using assms(2-5) by (simp add: orders_perform_update)
  ultimately show ?thesis by (intro Database.equality) simp_all
qed

lemma perform_update_rolled_back:
  assumes "q \<in> set (quotes db)"
    and "\<not> block_commits today oid db (ModelSerializer_update q data)"
  shows "perform_update today oid db (q, d) data =
           db\<lparr>quotes := map (\<lambda>r. if quote_id r = quote_id q then ModelSerializer_update q data else r)
                           (quotes db)\<rparr>"
proof -
  have mem: "list_ex (\<lambda>r. quote_id r = quote_id q) (quotes db)"
    using assms(1) by (auto simp: list_ex_iff)
  show ?thesis
    using perform_update_other [of q data db today oid d] assms(2) mem
    unfolding Quote_save_def by simp
qed

lemma find_map_other:
  assumes "find P xs = Some x" and "\<And>y. P (g y) = P y"
  shows "find P (map g xs) = Some (g x)"
  using assms find_map_key [of P g xs] by simp

text \<open>
  C1 (amended). Let \<open>q\<close> be a pending quote, loaded with its design \<open>d\<close>, that has no
  order yet; let the update set its status to accepted, on a day \<open>today\<close>, with a key for
  the order that the orders table does not hold. Write \<open>uq\<close> for the quote as saved (the
  fields of the body set on \<open>q\<close>; the status accepted). When \<open>today\<close> plus the lead-time
  days of \<open>uq\<close> is a date, \<open>perform_update\<close> leaves exactly this database: the orders
  table has one more row, the order of \<open>uq\<close> (it refers to the quote and its design, its
  customer is the design's customer, its manufacturer the quote's, its total the price of
  \<open>uq\<close>, its status pending-payment and its estimated delivery date \<open>today\<close> plus the
  lead-time days of \<open>uq\<close>); the design is stored as ordered; in the quotes table the row of
  \<open>q\<close> is \<open>uq\<close>, every other row of the design that was pending is rejected, and every
  further row is unchanged. When that day is not a date, the block is rolled back: the
  quote is stored as accepted and nothing else has changed.
\<close>

theorem accept_creates_order:
  assumes "get_object db pk = Some (q, d)" and "status q = PENDING"
    and "vd_status data = Some ACCEPTED" and "\<not> has_order_created_from db q"
    and "\<not> list_ex (\<lambda>ord. order_id ord = oid) (orders db)"
    and "date_min \<le> today" and "today \<le> date_max"
  shows "(date_min \<le> today + estimated_lead_time_days (ModelSerializer_update q data)
          \<and> today + estimated_lead_time_days (ModelSerializer_update q data) \<le> date_max \<longrightarrow>
            perform_update today oid db (q, d) data =
              \<lparr>designs =
                 (if design_status d \<noteq> ORDERED
                  then map (\<lambda>x. if design_pk x = design_id q then x\<lparr>design_status := ORDERED\<rparr> else x)
                         (designs db)
                  else designs db),
               quotes =
                 map (\<lambda>r. if quote_id r = quote_id q then ModelSerializer_update q data
                           else if design_id r = design_id q \<and> status r = PENDING
                           then r\<lparr>status := REJECTED\<rparr> else r)
                   (quotes db),
               orders =
                 orders db @
                 [\<lparr>order_id = oid, order_design = design_id q, accepted_quote = quote_id q,
                   order_customer = customer d, order_manufacturer = manufacturer_id q,
                   order_total_price_usd = price_usd (ModelSerializer_update q data),
                   order_status = PENDING_PAYMENT, created_at = today,
                   estimated_delivery_date =
                     Some (today + estimated_lead_time_days (ModelSerializer_update q data))\<rparr>]\<rparr>
            \<and> Design_objects_get (perform_update today oid db (q, d) data) (design_id q)
                = Some (d\<lparr>design_status := ORDERED\<rparr>)
            \<and> Quote_objects_get (perform_update today oid db (q, d) data) pk
                = Some (ModelSerializer_update q data)
            \<and> (\<forall>r. quote_id r \<noteq> quote_id q \<longrightarrow> Quote_objects_get db (quote_id r) = Some r \<longrightarrow>
                  Quote_objects_get (perform_update today oid db (q, d) data) (quote_id r) =
                    Some (if design_id r = design_id q \<and> status r = PENDING
                          then r\<lparr>status := REJECTED\<rparr> else r)))
         \<and> (today + estimated_lead_time_days (ModelSerializer_update q data) < date_min
            \<or> date_max < today + estimated_lead_time_days (ModelSerializer_update q data) \<longrightarrow>
              perform_update today oid db (q, d) data =
                db\<lparr>quotes := map (\<lambda>r. if quote_id r = quote_id q then ModelSerializer_update q data
                                       else r) (quotes db)\<rparr>)
         \<and> ModelSerializer_update q data =
             q\<lparr>price_usd := (case vd_price_usd data of None \<Rightarrow> price_usd q | Some p \<Rightarrow> p),
               estimated_lead_time_days :=
                 (case vd_estimated_lead_time_days data of
                    None \<Rightarrow> estimated_lead_time_days q | Some l \<Rightarrow> l),
               status := ACCEPTED,
               quote_notes := (case vd_notes data of None \<Rightarrow> quote_notes q | Some n \<Rightarrow> n)\<rparr>"
proof -
  let ?uq = "ModelSerializer_update q data"
  let ?db' = "perform_update today oid db (q, d) data"
  let ?f = "\<lambda>r. if quote_id r = quote_id q then ?uq
                 else if design_id r = design_id q \<and> status r = PENDING
                 then r\<lparr>status := REJECTED\<rparr> else r"
  let ?day = "date_min \<le> today + estimated_lead_time_days ?uq
              \<and> today + estimated_lead_time_days ?uq \<le> date_max"
  note g = get_object_Some [OF assms(1)]
  have na: "status q \<noteq> ACCEPTED" using assms(2) by simp
  have c3: "?uq =
          q\<lparr>price_usd := (case vd_price_usd data of None \<Rightarrow> price_usd q | Some p \<Rightarrow> p),
            estimated_lead_time_days :=
              (case vd_estimated_lead_time_days data of
                 None \<Rightarrow> estimated_lead_time_days q | Some l \<Rightarrow> l),
            status := ACCEPTED,
            quote_notes := (case vd_notes data of None \<Rightarrow> quote_notes q | Some n \<Rightarrow> n)\<rparr>"
    using assms(3) unfolding ModelSerializer_update_def by simp
  have c2: "?db' = db\<lparr>quotes := map (\<lambda>r. if quote_id r = quote_id q then ?uq else r) (quotes db)\<rparr>"
    if "today + estimated_lead_time_days ?uq < date_min
        \<or> date_max < today + estimated_lead_time_days ?uq"
  proof -
    from that have "\<not> block_commits today oid db ?uq" unfolding block_commits_def by auto
    from perform_update_rolled_back [OF g(4) this] show ?thesis .
  qed
  have eq: "?db' =
      \<lparr>designs =
         (if design_status d \<noteq> ORDERED
          then map (\<lambda>x. if design_pk x = design_id q then x\<lparr>design_status := ORDERED\<rparr> else x)
                 (designs db)
          else designs db),
       quotes = map ?f (quotes db),
       orders = orders db @ [the_order today oid ?uq d]\<rparr>" if ?day
  proof -
    have bc: "block_commits today oid db ?uq"
      using assms(5-7) that by (intro block_commitsI) simp_all
    show ?thesis
      using perform_update_cascade [OF g(4) na assms(3,4) bc, of d] g(5) by simp
  qed
  have c1a: "?db' =
      \<lparr>designs =
         (if design_status d \<noteq> ORDERED
          then map (\<lambda>x. if design_pk x = design_id q then x\<lparr>design_status := ORDERED\<rparr> else x)
                 (designs db)
          else designs db),
       quotes = map ?f (quotes db),
       orders =
         orders db @
         [\<lparr>order_id = oid, order_design = design_id q, accepted_quote = quote_id q,
           order_customer = customer d, order_manufacturer = manufacturer_id q,
           order_total_price_usd = price_usd ?uq,
           order_status = PENDING_PAYMENT, created_at = today,
           estimated_delivery_date = Some (today + estimated_lead_time_days ?uq)\<rparr>]\<rparr>" if ?day
    using eq [OF that] g(5) by (simp add: the_order_def)
  have fd: "find (\<lambda>x. design_pk x = design_id q) (designs db) = Some d"
    using g(2) unfolding Design_objects_get_def .
  have c1b: "Design_objects_get ?db' (design_id q) = Some (d\<lparr>design_status := ORDERED\<rparr>)" if ?day
  proof (cases "design_status d = ORDERED")
    case True
    then show ?thesis using eq [OF that] fd unfolding Design_objects_get_def by simp
  next
    case False
    have "find (\<lambda>x. design_pk x = design_id q)
            (map (\<lambda>x. if design_pk x = design_id q then x\<lparr>design_status := ORDERED\<rparr> else x) (designs db))
          = Some ((\<lambda>x. if design_pk x = design_id q then x\<lparr>design_status := ORDERED\<rparr> else x) d)"
      by (rule find_map_other [OF fd]) simp
    then show ?thesis using False eq [OF that] g(5) unfolding Design_objects_get_def by simp
  qed
  have fq: "find (\<lambda>r. quote_id r = pk) (quotes db) = Some q"
    using g(1) unfolding Quote_objects_get_def .
  have c1c: "Quote_objects_get ?db' pk = Some ?uq" if ?day
  proof -
    have "find (\<lambda>r. quote_id r = pk) (map ?f (quotes db)) = Some (?f q)"
      by (rule find_map_other [OF fq]) simp
    then show ?thesis using eq [OF that] unfolding Quote_objects_get_def by simp
  qed
  have c1d: "\<forall>r. quote_id r \<noteq> quote_id q \<longrightarrow> Quote_objects_get db (quote_id r) = Some r \<longrightarrow>
          Quote_objects_get ?db' (quote_id r) =
            Some (if design_id r = design_id q \<and> status r = PENDING
                  then r\<lparr>status := REJECTED\<rparr> else r)" if ?day
  proof (intro allI impI)
    fix r :: Quote
    assume n: "quote_id r \<noteq> quote_id q" and l: "Quote_objects_get db (quote_id r) = Some r"
    have "find (\<lambda>x. quote_id x = quote_id r) (map ?f (quotes db)) = Some (?f r)"
      by (rule find_map_other [OF l [unfolded Quote_objects_get_def]]) simp
    then show "Quote_objects_get ?db' (quote_id r) =
            Some (if design_id r = design_id q \<and> status r = PENDING
                  then r\<lparr>status := REJECTED\<rparr> else r)"
      using eq [OF that] n unfolding Quote_objects_get_def by simp
  qed
  show ?thesis
  proof (intro conjI impI)
    assume d: ?day
    show "?db' =
      \<lparr>designs =
         (if design_status d \<noteq> ORDERED
          then map (\<lambda>x. if design_pk x = design_id q then x\<lparr>design_status := ORDERED\<rparr> else x)
                 (designs db)
          else designs db),
       quotes = map ?f (quotes db),
       orders =
         orders db @
         [\<lparr>order_id = oid, order_design = design_id q, accepted_quote = quote_id q,
           order_customer = customer d, order_manufacturer = manufacturer_id q,
           order_total_price_usd = price_usd ?uq,
           order_status = PENDING_PAYMENT, created_at = today,
           estimated_delivery_date = Some (today + estimated_lead_time_days ?uq)\<rparr>]\<rparr>"
      by (rule c1a [OF d])
    show "Design_objects_get ?db' (design_id q) = Some (d\<lparr>design_status := ORDERED\<rparr>)"
      by (rule c1b [OF d])
    show "Quote_objects_get ?db' pk = Some ?uq" by (rule c1c [OF d])
    show "\<forall>r. quote_id r \<noteq> quote_id q \<longrightarrow> Quote_objects_get db (quote_id r) = Some r \<longrightarrow>
          Quote_objects_get ?db' (quote_id r) =
            Some (if design_id r = design_id q \<and> status r = PENDING
                  then r\<lparr>status := REJECTED\<rparr> else r)"
      by (rule c1d [OF d])
  next
    assume "today + estimated_lead_time_days ?uq < date_min
            \<or> date_max < today + estimated_lead_time_days ?uq"
    then show "?db' = db\<lparr>quotes := map (\<lambda>r. if quote_id r = quote_id q then ?uq else r) (quotes db)\<rparr>"
      by (rule c2)
  next
    show "?uq =
          q\<lparr>price_usd := (case vd_price_usd data of None \<Rightarrow> price_usd q | Some p \<Rightarrow> p),
            estimated_lead_time_days :=
              (case vd_estimated_lead_time_days data of
                 None \<Rightarrow> estimated_lead_time_days q | Some l \<Rightarrow> l),
            status := ACCEPTED,
            quote_notes := (case vd_notes data of None \<Rightarrow> quote_notes q | Some n \<Rightarrow> n)\<rparr>"
      by (rule c3)
  qed
qed

theorem accept_creates_order_witness:
  "get_object two_quotes_db 20 = Some (quote_mf1_design_c1, design_c1_analyzed)
   \<and> status quote_mf1_design_c1 = PENDING
   \<and> \<not> has_order_created_from two_quotes_db quote_mf1_design_c1
   \<and> perform_update 100 30 two_quotes_db (quote_mf1_design_c1, design_c1_analyzed) accept_data
       = \<lparr>designs = [design_c1_analyzed\<lparr>design_status := ORDERED\<rparr>, design_c1_pending],
          quotes = [quote_mf1_design_c1\<lparr>status := ACCEPTED\<rparr>,
                    quote_mf2_design_c1\<lparr>status := REJECTED\<rparr>],
          orders = [first_order]\<rparr>
   \<and> Quote_objects_get
        (perform_update 100 30 two_quotes_db (quote_mf1_design_c1, design_c1_analyzed) accept_data) 21
       = Some (quote_mf2_design_c1\<lparr>status := REJECTED\<rparr>)
   \<and> get_object slow_quotes_db 20 = Some (slow_quote, design_c1_analyzed)
   \<and> date_max < 739924 + estimated_lead_time_days slow_quote
   \<and> perform_update 739924 30 slow_quotes_db (slow_quote, design_c1_analyzed) accept_data
       = slow_quotes_db\<lparr>quotes := [slow_quote\<lparr>status := ACCEPTED\<rparr>, quote_mf2_design_c1]\<rparr>"
proof -
  have g: "get_object two_quotes_db 20 = Some (quote_mf1_design_c1, design_c1_analyzed)"
    by (simp add: get_object_def Quote_objects_get_def Design_objects_get_def two_quotes_db_def
        quote_mf2_design_c1_def fixture_defs)
  have s: "status quote_mf1_design_c1 = PENDING" by (simp add: fixture_defs)
  have v: "vd_status accept_data = Some ACCEPTED" by (simp add: accept_data_def)
  have n: "\<not> has_order_created_from two_quotes_db quote_mf1_design_c1"
    by (simp add: has_order_created_from_def two_quotes_db_def fixture_defs)
  have f: "\<not> list_ex (\<lambda>ord. order_id ord = 30) (orders two_quotes_db)"
    by (simp add: two_quotes_db_def fixture_defs)
  have t: "date_min \<le> 100" "100 \<le> date_max" "date_min \<le> 739924" "739924 \<le> date_max"
    by (simp_all add: date_min_def date_max_def)
  have u: "ModelSerializer_update quote_mf1_design_c1 accept_data
             = quote_mf1_design_c1\<lparr>status := ACCEPTED\<rparr>"
    by (simp add: ModelSerializer_update_def accept_data_def fixture_defs)
  have day: "date_min \<le> 100 + estimated_lead_time_days (ModelSerializer_update quote_mf1_design_c1 accept_data)
      \<and> 100 + estimated_lead_time_days (ModelSerializer_update quote_mf1_design_c1 accept_data) \<le> date_max"
    unfolding u by (simp add: date_min_def date_max_def fixture_defs)
  have l: "quote_id quote_mf2_design_c1 \<noteq> quote_id quote_mf1_design_c1"
    "Quote_objects_get two_quotes_db (quote_id quote_mf2_design_c1) = Some quote_mf2_design_c1"
    "quote_id quote_mf2_design_c1 = 21"
    by (simp_all add: Quote_objects_get_def two_quotes_db_def quote_mf2_design_c1_def fixture_defs)
  note T = accept_creates_order [OF g s v n f t(1,2), THEN conjunct1, rule_format, OF day]
  have 1: "perform_update 100 30 two_quotes_db (quote_mf1_design_c1, design_c1_analyzed) accept_data
       = \<lparr>designs = [design_c1_analyzed\<lparr>design_status := ORDERED\<rparr>, design_c1_pending],
          quotes = [quote_mf1_design_c1\<lparr>status := ACCEPTED\<rparr>,
                    quote_mf2_design_c1\<lparr>status := REJECTED\<rparr>],
          orders = [first_order]\<rparr>"
    using T [THEN conjunct1] unfolding u
    by (simp add: two_quotes_db_def quote_mf2_design_c1_def first_order_def fixture_defs)
  have 2: "Quote_objects_get
        (perform_update 100 30 two_quotes_db (quote_mf1_design_c1, design_c1_analyzed) accept_data) 21
       = Some (quote_mf2_design_c1\<lparr>status := REJECTED\<rparr>)"
    using T [THEN conjunct2, THEN conjunct2, THEN conjunct2, rule_format, OF l(1,2)]
    unfolding l(3) by (simp add: quote_mf2_design_c1_def fixture_defs)
  have g': "get_object slow_quotes_db 20 = Some (slow_quote, design_c1_analyzed)"
    by (simp add: get_object_def Quote_objects_get_def Design_objects_get_def slow_quotes_db_def
        slow_quote_def quote_mf2_design_c1_def fixture_defs)
  have s': "status slow_quote = PENDING" by (simp add: slow_quote_def fixture_defs)
  have n': "\<not> has_order_created_from slow_quotes_db slow_quote"
    by (simp add: has_order_created_from_def slow_quotes_db_def fixture_defs)
  have f': "\<not> list_ex (\<lambda>ord. order_id ord = 30) (orders slow_quotes_db)"
    by (simp add: slow_quotes_db_def fixture_defs)
  have u': "ModelSerializer_update slow_quote accept_data = slow_quote\<lparr>status := ACCEPTED\<rparr>"
    by (simp add: ModelSerializer_update_def accept_data_def slow_quote_def fixture_defs)
  have late: "date_max < 739924 + estimated_lead_time_days slow_quote"
    by (simp add: date_max_def slow_quote_def)
  then have late': "739924 + estimated_lead_time_days (ModelSerializer_update slow_quote accept_data) < date_min
      \<or> date_max < 739924 + estimated_lead_time_days (ModelSerializer_update slow_quote accept_data)"
    unfolding u' by simp
  have 3: "perform_update 739924 30 slow_quotes_db (slow_quote, design_c1_analyzed) accept_data
       = slow_quotes_db\<lparr>quotes := [slow_quote\<lparr>status := ACCEPTED\<rparr>, quote_mf2_design_c1]\<rparr>"
    using accept_creates_order [OF g' s' v n' f' t(3,4), THEN conjunct2, THEN conjunct1, rule_format,
        OF late']
    unfolding u' by (simp add: slow_quotes_db_def slow_quote_def quote_mf2_design_c1_def fixture_defs)
  show ?thesis using g s n 1 2 g' late 3 by blast
qed

text \<open>
  The claim C1 as stated fails where the guard of \<open>perform_update\<close> applies: in
  \<open>reaccept_db\<close> the quote is pending and its order of day 100 exists. The design's
  owner accepts it on day 200: the update succeeds, no order is created, and the one
  order there is has the old total (150, the quote's price is 160) and the old delivery
  date (110, not 200 + 10). It also fails where the atomic block raises: the owner accepts
  the pending quote of \<open>slow_quotes_db\<close> on day 739924; that day plus 3000000 is no date,
  so the update succeeds and stores the quote as accepted, while there is no order, the
  design is not ordered and the other quote of the design is still pending.
\<close>

theorem accept_with_existing_order_counterexample:
  "get_object reaccept_db 20
     = Some (quote_mf1_design_c1\<lparr>price_usd := 160\<rparr>, design_c1_analyzed\<lparr>design_status := ORDERED\<rparr>)
   \<and> status (quote_mf1_design_c1\<lparr>price_usd := 160\<rparr>) = PENDING
   \<and> QuoteDetailView_update True 200 31 reaccept_db (Some customer1) 20 (status_only ''accepted'')
       = Inr (reaccept_db\<lparr>quotes := [quote_mf1_design_c1\<lparr>price_usd := 160, status := ACCEPTED\<rparr>]\<rparr>)
   \<and> orders (reaccept_db\<lparr>quotes := [quote_mf1_design_c1\<lparr>price_usd := 160, status := ACCEPTED\<rparr>]\<rparr>)
       = [first_order]
   \<and> order_total_price_usd first_order = 150
   \<and> estimated_delivery_date first_order = Some 110
   \<and> get_object slow_quotes_db 20 = Some (slow_quote, design_c1_analyzed)
   \<and> status slow_quote = PENDING
   \<and> QuoteDetailView_update True 739924 30 slow_quotes_db (Some customer1) 20 (status_only ''accepted'')
       = Inr \<lparr>designs = [design_c1_analyzed, design_c1_pending],
              quotes = [slow_quote\<lparr>status := ACCEPTED\<rparr>, quote_mf2_design_c1],
              orders = []\<rparr>
   \<and> design_status design_c1_analyzed = ANALYSIS_COMPLETE
   \<and> status quote_mf2_design_c1 = PENDING \<and> design_id quote_mf2_design_c1 = design_id slow_quote"
  by (simp add: update_defs block_commits_def reaccept_db_def first_order_def slow_quotes_db_def
      slow_quote_def quote_mf2_design_c1_def fixture_defs)

text \<open>
  \<open>reaccept_db\<close> is reached from \<open>setUp\<close> through the view alone when the design's
  owner is a staff user: the owner accepts the quote, sets it back to pending, and the
  manufacturer changes the price.
\<close>

lemma reaccept_db_reachable:
  "\<exists>db_a db_b.
     QuoteDetailView_update True 100 30 setUp (Some staff_customer) 20 (status_only ''accepted'') = Inr db_a
     \<and> QuoteDetailView_update True 101 31 db_a (Some staff_customer) 20 (status_only ''pending'') = Inr db_b
     \<and> QuoteDetailView_update True 102 32 db_b (Some manufacturer1) 20 price_body = Inr reaccept_db"
  by (simp add: update_defs reaccept_db_def first_order_def fixture_defs staff_customer_def price_body_def)

subsection \<open>The invariants of the quotes table\<close>

text \<open>
  Every successful POST, PUT, PATCH and DELETE keeps the quotes table with unique keys and
  with at most one quote of a manufacturer for a design: an update rewrites rows in place
  and touches neither \<open>design\<close> nor \<open>manufacturer\<close>, which are read-only fields.
\<close>

lemma quotes_Quote_save_mem:
  assumes "q \<in> set (quotes db)" "quote_id uq = quote_id q"
  shows "quotes (Quote_save db uq) = map (\<lambda>r. if quote_id r = quote_id q then uq else r) (quotes db)"
  using assms unfolding Quote_save_def by (auto simp: list_ex_iff)

lemma quotes_perform_update_map:
  assumes "q \<in> set (quotes db)"
  shows "\<exists>f. quotes (perform_update today oid db (q, d) data) = map f (quotes db)
           \<and> (\<forall>r. quote_id (f r) = quote_id r)
           \<and> (\<forall>r. quote_id r \<noteq> quote_id q \<longrightarrow>
                  design_id (f r) = design_id r \<and> manufacturer_id (f r) = manufacturer_id r)
           \<and> design_id (f q) = design_id q \<and> manufacturer_id (f q) = manufacturer_id q"
proof -
  let ?uq = "ModelSerializer_update q data"
  let ?rep = "\<lambda>r. if quote_id r = quote_id q then ?uq else r"
  let ?rej = "\<lambda>r. if design_id r = design_pk d \<and> status r = PENDING \<and> quote_id r \<noteq> quote_id q
                     then r\<lparr>status := REJECTED\<rparr> else r"
  have s: "quotes (Quote_save db ?uq) = map ?rep (quotes db)"
    using quotes_Quote_save_mem [OF assms, of ?uq] by simp
  show ?thesis
  proof (cases "status q \<noteq> ACCEPTED \<and> vd_status data = Some ACCEPTED \<and> \<not> has_order_created_from db q
      \<and> block_commits today oid db (ModelSerializer_update q data)")
    case True
    then have "quotes (perform_update today oid db (q, d) data) = map (\<lambda>r. ?rej (?rep r)) (quotes db)"
      using quotes_perform_update_accept(1) [of q data db today oid d] s by (simp add: comp_def)
    then show ?thesis
      by (intro exI [of _ "\<lambda>r. ?rej (?rep r)"]) simp
  next
    case False
    then have "status q = ACCEPTED \<or> vd_status data \<noteq> Some ACCEPTED \<or> has_order_created_from db q
        \<or> \<not> block_commits today oid db (ModelSerializer_update q data)"
      by blast
    then have "quotes (perform_update today oid db (q, d) data) = map ?rep (quotes db)"
      using perform_update_other [of q data db today oid d] s by simp
    then show ?thesis
      by (intro exI [of _ ?rep]) simp
  qed
qed

lemma invariant_update:
  assumes r: "QuoteDetailView_update partial today oid db user pk body = Inr db'"
    and i: "one_quote_per_pair db" "quote_ids_distinct db"
  shows "one_quote_per_pair db' \<and> quote_ids_distinct db'"
proof -
  from update_Inr [OF r] obtain inst data where
    g: "get_object db pk = Some inst" and db': "db' = perform_update today oid db inst data"
    by blast
  obtain q d where inst: "inst = (q, d)" by (cases inst)
  have mem: "q \<in> set (quotes db)" using get_object_Some(4) g inst by blast
  from quotes_perform_update_map [OF mem, of today oid d data] obtain f where
    f: "quotes db' = map f (quotes db)" "\<forall>r. quote_id (f r) = quote_id r"
       "\<forall>r. quote_id r \<noteq> quote_id q \<longrightarrow>
                  design_id (f r) = design_id r \<and> manufacturer_id (f r) = manufacturer_id r"
       "design_id (f q) = design_id q \<and> manufacturer_id (f q) = manufacturer_id q"
    unfolding db' inst by blast
  have ids: "map quote_id (quotes db') = map quote_id (quotes db)"
    using f(1,2) by simp
  have same: "quote_id r = quote_id q \<Longrightarrow> r = q" if "r \<in> set (quotes db)" for r
    using that mem i(2) unfolding quote_ids_distinct_def
    by (meson distinct_map inj_onD)
  have "(design_id (f r), manufacturer_id (f r)) = (design_id r, manufacturer_id r)"
    if "r \<in> set (quotes db)" for r
    using f(3,4) same [OF that] by (cases "quote_id r = quote_id q") auto
  then have pairs: "map (\<lambda>q. (design_id q, manufacturer_id q)) (quotes db')
      = map (\<lambda>q. (design_id q, manufacturer_id q)) (quotes db)"
    unfolding f(1) by simp
  show ?thesis
    using i ids pairs unfolding one_quote_per_pair_def quote_ids_distinct_def by simp
qed

lemma invariant_create:
  assumes r: "QuoteListCreateView_post label new_id db user kw body = Inr db'"
    and i: "one_quote_per_pair db" "quote_ids_distinct db"
  shows "one_quote_per_pair db' \<and> quote_ids_distinct db'"
proof -
  from r obtain u data where p: "perform_create new_id db u kw data = Inr db'"
    unfolding QuoteListCreateView_post_def
    by (auto split: option.splits permission.splits sum.splits)
  from perform_create_Inr [OF p] obtain pk d q where
    q: "\<not> list_ex (\<lambda>q. design_id q = pk \<and> manufacturer_id q = user_pk u) (quotes db)"
       "db' = db\<lparr>quotes := quotes db @ [q]\<rparr>" "design_id q = pk" "manufacturer_id q = user_pk u"
       "quote_id q = new_id"
       "kw = Some pk" "Design_objects_get db pk = Some d"
    by blast
  have "design_pk d = pk" using q(7) Design_objects_get_pk by blast
  then have fresh: "\<not> list_ex (\<lambda>r. quote_id r = new_id) (quotes db)"
    using p q(1,6,7) unfolding perform_create_def serializer_save_create_def
    by (auto split: option.splits if_splits)
  have "(design_id q, manufacturer_id q) \<notin> set (map (\<lambda>q. (design_id q, manufacturer_id q)) (quotes db))"
    using q(1,3,4) by (auto simp: list_ex_iff)
  moreover have "quote_id q \<notin> set (map quote_id (quotes db))"
    using fresh q(5) by (auto simp: list_ex_iff)
  ultimately show ?thesis
    using i q(2) unfolding one_quote_per_pair_def quote_ids_distinct_def by simp
qed

lemma invariant_destroy:
  assumes r: "perform_destroy db u q = Inr db'"
    and i: "one_quote_per_pair db" "quote_ids_distinct db"
  shows "one_quote_per_pair db' \<and> quote_ids_distinct db'"
proof -
  from r have "quotes db' = filter (\<lambda>r. quote_id r \<noteq> quote_id q) (quotes db)"
    unfolding perform_destroy_def by (auto split: if_splits)
  then show ?thesis
    using i unfolding one_quote_per_pair_def quote_ids_distinct_def
    by (simp add: distinct_map_filter)
qed

subsection \<open>Who may change the status\<close>

text \<open>
  C3 (amended). For an actor who is not staff and a body that holds a status \<open>s\<close>:
  when the body holds nothing else and the actor owns the design, the permission is
  granted exactly when the quote is pending and \<open>s\<close> is accepted or rejected, and is
  otherwise denied with the message that names both statuses; when the body holds nothing
  else and the actor is the quote's manufacturer (and not the design's owner), it is
  granted exactly when the quote is pending and \<open>s\<close> is expired, and is otherwise denied
  with the message that names both statuses; when the body holds other keys too and \<open>s\<close>
  differs from the quote's status, it is denied for the design's owner whatever \<open>s\<close> is,
  and for everybody else whenever \<open>s\<close> is not expired. The serializer's \<open>validate\<close>
  accepts every status change the permission grants.
\<close>

theorem status_update_rule:
  assumes "\<not> is_staff u" and "rd_status body = Some s"
  shows "(customer d = user_pk u \<longrightarrow> len_data body = 1 \<longrightarrow>
            CanUpdateQuote_has_object_permission (Some u) q d body =
              (if status q = PENDING \<and> (s = ''accepted'' \<or> s = ''rejected'') then Allow
               else Deny (''Customer can only change status from Pending to Accepted/Rejected. Invalid transition from ''
                          @ quoted (status_value (status q)) @ '' to '' @ quoted s @ ''.'')))
       \<and> (customer d \<noteq> user_pk u \<longrightarrow> manufacturer_id q = user_pk u \<longrightarrow> len_data body = 1 \<longrightarrow>
            CanUpdateQuote_has_object_permission (Some u) q d body =
              (if status q = PENDING \<and> s = ''expired'' then Allow
               else Deny (''Manufacturer cannot make this status transition from ''
                          @ quoted (status_value (status q)) @ '' to '' @ quoted s @ ''.'')))
       \<and> (len_data body \<noteq> 1 \<longrightarrow> s \<noteq> status_value (status q) \<longrightarrow>
            (customer d = user_pk u \<or> s \<noteq> ''expired'') \<longrightarrow>
            (\<exists>msg. CanUpdateQuote_has_object_permission (Some u) q d body = Deny msg))
       \<and> (\<forall>data ns. vd_status data = Some ns \<longrightarrow> customer d \<noteq> manufacturer_id q \<longrightarrow>
            (customer d = user_pk u \<and> status q = PENDING \<and> (ns = ACCEPTED \<or> ns = REJECTED)
             \<or> customer d \<noteq> user_pk u \<and> manufacturer_id q = user_pk u \<and> status q = PENDING
                \<and> ns = EXPIRED) \<longrightarrow>
            QuoteSerializer_validate (Some u) (Some (q, d)) data = Inr data)"
proof (intro conjI allI impI)
  assume "customer d = user_pk u" "len_data body = 1"
  then show "CanUpdateQuote_has_object_permission (Some u) q d body =
              (if status q = PENDING \<and> (s = ''accepted'' \<or> s = ''rejected'') then Allow
               else Deny (''Customer can only change status from Pending to Accepted/Rejected. Invalid transition from ''
                          @ quoted (status_value (status q)) @ '' to '' @ quoted s @ ''.''))"
    using assms unfolding CanUpdateQuote_has_object_permission_def Let_def by simp
next
  assume "customer d \<noteq> user_pk u" "manufacturer_id q = user_pk u" "len_data body = 1"
  then show "CanUpdateQuote_has_object_permission (Some u) q d body =
              (if status q = PENDING \<and> s = ''expired'' then Allow
               else Deny (''Manufacturer cannot make this status transition from ''
                          @ quoted (status_value (status q)) @ '' to '' @ quoted s @ ''.''))"
    using assms unfolding CanUpdateQuote_has_object_permission_def Let_def by simp
next
  assume "len_data body \<noteq> 1" "s \<noteq> status_value (status q)" "customer d = user_pk u \<or> s \<noteq> ''expired''"
  then show "\<exists>msg. CanUpdateQuote_has_object_permission (Some u) q d body = Deny msg"
    using assms unfolding CanUpdateQuote_has_object_permission_def Let_def by auto
next
  fix data :: validated_data and ns
  assume "vd_status data = Some ns" "customer d \<noteq> manufacturer_id q"
    "customer d = user_pk u \<and> status q = PENDING \<and> (ns = ACCEPTED \<or> ns = REJECTED)
             \<or> customer d \<noteq> user_pk u \<and> manufacturer_id q = user_pk u \<and> status q = PENDING
                \<and> ns = EXPIRED"
  then show "QuoteSerializer_validate (Some u) (Some (q, d)) data = Inr data"
    unfolding QuoteSerializer_validate_def Let_def by auto
qed

theorem status_update_rule_witness:
  "CanUpdateQuote_has_object_permission (Some customer1) quote_mf1_design_c1 design_c1_analyzed
        (status_only ''accepted'') = Allow
   \<and> CanUpdateQuote_has_object_permission (Some customer1) quote_mf1_design_c1 design_c1_analyzed
        (status_only ''expired'')
       = Deny (''Customer can only change status from Pending to Accepted/Rejected. Invalid transition from ''
               @ quoted ''pending'' @ '' to '' @ quoted ''expired'' @ ''.'')
   \<and> CanUpdateQuote_has_object_permission (Some manufacturer1) quote_mf1_design_c1 design_c1_analyzed
        (status_only ''expired'') = Allow
   \<and> CanUpdateQuote_has_object_permission (Some manufacturer1) quote_mf1_design_c1 design_c1_analyzed
        (status_only ''accepted'')
       = Deny (''Manufacturer cannot make this status transition from ''
               @ quoted ''pending'' @ '' to '' @ quoted ''accepted'' @ ''.'')
   \<and> (\<exists>msg. CanUpdateQuote_has_object_permission (Some customer1) quote_mf1_design_c1
               design_c1_analyzed (notes_and_status ''accepted'') = Deny msg)
   \<and> QuoteSerializer_validate (Some customer1) (Some (quote_mf1_design_c1, design_c1_analyzed))
        accept_data = Inr accept_data"
proof -
  have c: "\<not> is_staff customer1" "\<not> is_staff manufacturer1"
    "customer design_c1_analyzed = user_pk customer1"
    "customer design_c1_analyzed \<noteq> user_pk manufacturer1"
    "manufacturer_id quote_mf1_design_c1 = user_pk manufacturer1"
    "customer design_c1_analyzed \<noteq> manufacturer_id quote_mf1_design_c1"
    "status quote_mf1_design_c1 = PENDING"
    by (simp_all add: fixture_defs)
  have b: "rd_status (status_only ''accepted'') = Some ''accepted''"
    "rd_status (status_only ''expired'') = Some ''expired''"
    "rd_status (notes_and_status ''accepted'') = Some ''accepted''"
    "len_data (status_only ''accepted'') = 1" "len_data (status_only ''expired'') = 1"
    "len_data (notes_and_status ''accepted'') \<noteq> 1"
    "vd_status accept_data = Some ACCEPTED"
    by (simp_all add: status_only_def notes_and_status_def len_data_def accept_data_def)
  note A = status_update_rule [OF c(1) b(1), of design_c1_analyzed quote_mf1_design_c1]
  note B = status_update_rule [OF c(1) b(2), of design_c1_analyzed quote_mf1_design_c1]
  note C = status_update_rule [OF c(2) b(2), of design_c1_analyzed quote_mf1_design_c1]
  note D = status_update_rule [OF c(2) b(1), of design_c1_analyzed quote_mf1_design_c1]
  note E = status_update_rule [OF c(1) b(3), of design_c1_analyzed quote_mf1_design_c1]
  have 1: "CanUpdateQuote_has_object_permission (Some customer1) quote_mf1_design_c1 design_c1_analyzed
        (status_only ''accepted'') = Allow"
    using A [THEN conjunct1] c b by simp
  have 2: "CanUpdateQuote_has_object_permission (Some customer1) quote_mf1_design_c1 design_c1_analyzed
        (status_only ''expired'')
       = Deny (''Customer can only change status from Pending to Accepted/Rejected. Invalid transition from ''
               @ quoted ''pending'' @ '' to '' @ quoted ''expired'' @ ''.'')"
    using B [THEN conjunct1] c b by simp
  have 3: "CanUpdateQuote_has_object_permission (Some manufacturer1) quote_mf1_design_c1 design_c1_analyzed
        (status_only ''expired'') = Allow"
    using C [THEN conjunct2, THEN conjunct1] c b by simp
  have 4: "CanUpdateQuote_has_object_permission (Some manufacturer1) quote_mf1_design_c1 design_c1_analyzed
        (status_only ''accepted'')
       = Deny (''Manufacturer cannot make this status transition from ''
               @ quoted ''pending'' @ '' to '' @ quoted ''accepted'' @ ''.'')"
    using D [THEN conjunct2, THEN conjunct1] c b by simp
  have 5: "\<exists>msg. CanUpdateQuote_has_object_permission (Some customer1) quote_mf1_design_c1
               design_c1_analyzed (notes_and_status ''accepted'') = Deny msg"
    using E [THEN conjunct2, THEN conjunct2, THEN conjunct1] c b by simp
  have 6: "QuoteSerializer_validate (Some customer1) (Some (quote_mf1_design_c1, design_c1_analyzed))
        accept_data = Inr accept_data"
    using A [THEN conjunct2, THEN conjunct2, THEN conjunct2] c b by blast
  show ?thesis using 1 2 3 4 5 6 by blast
qed

text \<open>
  The claim C3 as stated fails on a mixed update: the design's owner may accept the
  pending quote with a body that holds the status alone, and the same status change with
  \<open>notes\<close> beside it is denied. It also fails for a design owner who is staff: the
  status-only change of a pending quote to expired is granted.
\<close>

theorem status_update_rule_counterexample:
  "\<not> is_staff customer1
   \<and> customer design_c1_analyzed = user_pk customer1
   \<and> status quote_mf1_design_c1 = PENDING
   \<and> CanUpdateQuote_has_object_permission (Some customer1) quote_mf1_design_c1 design_c1_analyzed
        (status_only ''accepted'') = Allow
   \<and> CanUpdateQuote_has_object_permission (Some customer1) quote_mf1_design_c1 design_c1_analyzed
        (notes_and_status ''accepted'')
       = Deny ''You cannot update this quote in its current state or with the provided data.''
   \<and> customer design_c1_analyzed = user_pk staff_customer
   \<and> CanUpdateQuote_has_object_permission (Some staff_customer) quote_mf1_design_c1 design_c1_analyzed
        (status_only ''expired'') = Allow"
  by (simp add: CanUpdateQuote_has_object_permission_def len_data_def status_only_def
      notes_and_status_def fixture_defs staff_customer_def)

text \<open>
  C9 (amended). \<open>CanUpdateQuote\<close> grants a staff actor every change. A staff actor's
  request reaches \<open>perform_update\<close> only through the serializer. A staff actor who is
  neither the design's owner nor the quote's manufacturer gets a validation error for
  every body that holds a status; one who is the quote's manufacturer (and not the
  design's owner) gets the validation error of the manufacturer for the PATCH of a quote
  that is not accepted to accepted. A staff actor who owns the design gets that PATCH
  through, whatever the quote's status; when the quote is not accepted, has no order, the
  key for the order is new and the day of the update plus the lead-time days is a date,
  the PATCH leaves the database of the whole cascade: the order of the quote is added,
  the design is stored as ordered, the quote as accepted, and every other quote of the
  design that was pending as rejected.
\<close>

theorem staff_update:
  "(is_staff u \<longrightarrow> CanUpdateQuote_has_object_permission (Some u) q d body = Allow)
   \<and> (is_staff u \<longrightarrow> get_object db pk = Some (q, d) \<longrightarrow> user_pk u = customer d \<longrightarrow>
        customer d \<noteq> manufacturer_id q \<longrightarrow> status q \<noteq> ACCEPTED \<longrightarrow>
        \<not> has_order_created_from db q \<longrightarrow> \<not> list_ex (\<lambda>ord. order_id ord = oid) (orders db) \<longrightarrow>
        date_min \<le> today \<longrightarrow> today \<le> date_max \<longrightarrow>
        date_min \<le> today + estimated_lead_time_days q \<longrightarrow>
        today + estimated_lead_time_days q \<le> date_max \<longrightarrow>
        QuoteDetailView_update True today oid db (Some u) pk (status_only ''accepted'') =
          Inr \<lparr>designs =
                 (if design_status d \<noteq> ORDERED
                  then map (\<lambda>x. if design_pk x = design_id q then x\<lparr>design_status := ORDERED\<rparr> else x)
                         (designs db)
                  else designs db),
               quotes =
                 map (\<lambda>r. if quote_id r = quote_id q then q\<lparr>status := ACCEPTED\<rparr>
                           else if design_id r = design_id q \<and> status r = PENDING
                           then r\<lparr>status := REJECTED\<rparr> else r)
                   (quotes db),
               orders =
                 orders db @
                 [\<lparr>order_id = oid, order_design = design_id q, accepted_quote = quote_id q,
                   order_customer = customer d, order_manufacturer = manufacturer_id q,
                   order_total_price_usd = price_usd q,
                   order_status = PENDING_PAYMENT, created_at = today,
                   estimated_delivery_date = Some (today + estimated_lead_time_days q)\<rparr>]\<rparr>)
   \<and> (is_staff u \<longrightarrow> get_object db pk = Some (q, d) \<longrightarrow> user_pk u \<noteq> customer d \<longrightarrow>
        user_pk u \<noteq> manufacturer_id q \<longrightarrow> rd_status body \<noteq> None \<longrightarrow>
        (\<exists>msg. QuoteDetailView_update partial today oid db (Some u) pk body
                  = Inl (ValidationFailed msg)))
   \<and> (is_staff u \<longrightarrow> get_object db pk = Some (q, d) \<longrightarrow> user_pk u \<noteq> customer d \<longrightarrow>
        user_pk u = manufacturer_id q \<longrightarrow> status q \<noteq> ACCEPTED \<longrightarrow>
        QuoteDetailView_update True today oid db (Some u) pk (status_only ''accepted'')
          = Inl (ValidationFailed ''Manufacturer cannot change status to accepted this way.''))
   \<and> (is_staff u \<longrightarrow> get_object db pk = Some (q, d) \<longrightarrow> user_pk u = customer d \<longrightarrow>
        customer d \<noteq> manufacturer_id q \<longrightarrow>
        QuoteDetailView_update True today oid db (Some u) pk (status_only ''accepted'')
          = Inr (perform_update today oid db (q, d) accept_data))"
proof -
  have perm: "CanUpdateQuote_has_object_permission (Some u) q d b = Allow" if "is_staff u" for b
    using that unfolding CanUpdateQuote_has_object_permission_def by simp
  have t: "to_internal_value True (status_only ''accepted'') = Inr accept_data"
    by (simp add: to_internal_value_def status_only_def parse_status_def accept_data_def)
  have through: "QuoteDetailView_update True today oid db (Some u) pk (status_only ''accepted'')
          = Inr (perform_update today oid db (q, d) accept_data)"
    if s: "is_staff u" and g: "get_object db pk = Some (q, d)"
      and n: "user_pk u = customer d" "customer d \<noteq> manufacturer_id q"
  proof -
    have v: "QuoteSerializer_validate (Some u) (Some (q, d)) accept_data = Inr accept_data"
      using n unfolding QuoteSerializer_validate_def by (simp add: accept_data_def)
    show ?thesis
      using g perm [OF s] t v unfolding QuoteDetailView_update_def by simp
  qed
  show ?thesis
  proof (intro conjI impI)
    assume "is_staff u"
    then show "CanUpdateQuote_has_object_permission (Some u) q d body = Allow" by (rule perm)
  next
    assume s: "is_staff u" and g: "get_object db pk = Some (q, d)"
      and n: "user_pk u = customer d" "customer d \<noteq> manufacturer_id q"
      and c: "status q \<noteq> ACCEPTED" "\<not> has_order_created_from db q"
        "\<not> list_ex (\<lambda>ord. order_id ord = oid) (orders db)"
      and day: "date_min \<le> today" "today \<le> date_max"
        "date_min \<le> today + estimated_lead_time_days q"
        "today + estimated_lead_time_days q \<le> date_max"
    have u: "ModelSerializer_update q accept_data = q\<lparr>status := ACCEPTED\<rparr>"
      unfolding ModelSerializer_update_def accept_data_def by simp
    have bc: "block_commits today oid db (ModelSerializer_update q accept_data)"
      unfolding u using c(3) day by (intro block_commitsI) simp_all
    have v: "vd_status accept_data = Some ACCEPTED" by (simp add: accept_data_def)
    note gs = get_object_Some [OF g]
    show "QuoteDetailView_update True today oid db (Some u) pk (status_only ''accepted'') =
          Inr \<lparr>designs =
                 (if design_status d \<noteq> ORDERED
                  then map (\<lambda>x. if design_pk x = design_id q then x\<lparr>design_status := ORDERED\<rparr> else x)
                         (designs db)
                  else designs db),
               quotes =
                 map (\<lambda>r. if quote_id r = quote_id q then q\<lparr>status := ACCEPTED\<rparr>
                           else if design_id r = design_id q \<and> status r = PENDING
                           then r\<lparr>status := REJECTED\<rparr> else r)
                   (quotes db),
               orders =
                 orders db @
                 [\<lparr>order_id = oid, order_design = design_id q, accepted_quote = quote_id q,
                   order_customer = customer d, order_manufacturer = manufacturer_id q,
                   order_total_price_usd = price_usd q,
                   order_status = PENDING_PAYMENT, created_at = today,
                   estimated_delivery_date = Some (today + estimated_lead_time_days q)\<rparr>]\<rparr>"
      unfolding through [OF s g n] perform_update_cascade [OF gs(4) c(1) v c(2) bc, of d] u
      using gs(5) by (simp add: the_order_def)
  next
    assume s: "is_staff u" and g: "get_object db pk = Some (q, d)"
      and n: "user_pk u \<noteq> customer d" "user_pk u \<noteq> manufacturer_id q" and b: "rd_status body \<noteq> None"
    show "\<exists>msg. QuoteDetailView_update partial today oid db (Some u) pk body = Inl (ValidationFailed msg)"
    proof (cases "to_internal_value partial body")
      case (Inl e)
      then obtain msg where "e = ValidationFailed msg"
        unfolding to_internal_value_def by (auto split: if_splits option.splits)
      then show ?thesis using Inl g perm [OF s] unfolding QuoteDetailView_update_def by simp
    next
      case (Inr attrs)
      then have "vd_status attrs \<noteq> None"
        using b unfolding to_internal_value_def by (auto split: if_splits option.splits)
      then have "\<exists>msg. QuoteSerializer_validate (Some u) (Some (q, d)) attrs = Inl (ValidationFailed msg)"
        using n unfolding QuoteSerializer_validate_def by auto
      then show ?thesis using Inr g perm [OF s] unfolding QuoteDetailView_update_def by auto
    qed
  next
    assume s: "is_staff u" and g: "get_object db pk = Some (q, d)"
      and n: "user_pk u \<noteq> customer d" "user_pk u = manufacturer_id q" and c: "status q \<noteq> ACCEPTED"
    have "QuoteSerializer_validate (Some u) (Some (q, d)) accept_data
            = Inl (ValidationFailed ''Manufacturer cannot change status to accepted this way.'')"
      using n c unfolding QuoteSerializer_validate_def by (auto simp: accept_data_def)
    then show "QuoteDetailView_update True today oid db (Some u) pk (status_only ''accepted'')
          = Inl (ValidationFailed ''Manufacturer cannot change status to accepted this way.'')"
      using g perm [OF s] t unfolding QuoteDetailView_update_def by simp
  next
    assume "is_staff u" "get_object db pk = Some (q, d)" "user_pk u = customer d"
      "customer d \<noteq> manufacturer_id q"
    then show "QuoteDetailView_update True today oid db (Some u) pk (status_only ''accepted'')
          = Inr (perform_update today oid db (q, d) accept_data)"
      by (rule through)
  qed
qed

theorem staff_update_witness:
  "is_staff admin_user \<and> is_staff staff_customer \<and> is_staff staff_manufacturer
   \<and> status (quote_mf1_design_c1\<lparr>status := REJECTED\<rparr>) = REJECTED
   \<and> CanUpdateQuote_has_object_permission (Some admin_user)
        (quote_mf1_design_c1\<lparr>status := REJECTED\<rparr>) design_c1_analyzed (status_only ''pending'') = Allow
   \<and> QuoteDetailView_update True 100 30 rejected_db (Some staff_customer) 20 (status_only ''accepted'')
       = Inr \<lparr>designs = [design_c1_analyzed\<lparr>design_status := ORDERED\<rparr>, design_c1_pending],
              quotes = [quote_mf1_design_c1\<lparr>status := ACCEPTED\<rparr>],
              orders = [first_order]\<rparr>
   \<and> (\<exists>msg. QuoteDetailView_update True 100 30 rejected_db (Some admin_user) 20
               (status_only ''accepted'') = Inl (ValidationFailed msg))
   \<and> QuoteDetailView_update True 100 30 rejected_db (Some staff_manufacturer) 20
        (status_only ''accepted'')
       = Inl (ValidationFailed ''Manufacturer cannot change status to accepted this way.'')
   \<and> QuoteDetailView_update True 100 30 rejected_db (Some staff_customer) 20 (status_only ''accepted'')
       = Inr (perform_update 100 30 rejected_db
                (quote_mf1_design_c1\<lparr>status := REJECTED\<rparr>, design_c1_analyzed) accept_data)"
proof -
  let ?q = "quote_mf1_design_c1\<lparr>status := REJECTED\<rparr>"
  have st: "is_staff admin_user" "is_staff staff_customer" "is_staff staff_manufacturer"
    by (simp_all add: fixture_defs staff_customer_def staff_manufacturer_def)
  have g: "get_object rejected_db 20 = Some (?q, design_c1_analyzed)"
    by (simp add: get_object_def Quote_objects_get_def Design_objects_get_def rejected_db_def
        fixture_defs)
  have f: "status ?q \<noteq> ACCEPTED"
    "\<not> has_order_created_from rejected_db ?q"
    "\<not> list_ex (\<lambda>ord. order_id ord = 30) (orders rejected_db)"
    "user_pk admin_user \<noteq> customer design_c1_analyzed"
    "user_pk admin_user \<noteq> manufacturer_id ?q"
    "rd_status (status_only ''accepted'') \<noteq> None"
    "user_pk staff_customer = customer design_c1_analyzed"
    "customer design_c1_analyzed \<noteq> manufacturer_id ?q"
    "user_pk staff_manufacturer \<noteq> customer design_c1_analyzed"
    "user_pk staff_manufacturer = manufacturer_id ?q"
    by (simp_all add: has_order_created_from_def rejected_db_def status_only_def
        fixture_defs staff_customer_def staff_manufacturer_def)
  have day: "date_min \<le> 100" "100 \<le> date_max" "date_min \<le> 100 + estimated_lead_time_days ?q"
    "100 + estimated_lead_time_days ?q \<le> date_max"
    by (simp_all add: date_min_def date_max_def fixture_defs)
  note A = staff_update [where u = admin_user and q = "?q" and d = design_c1_analyzed
      and body = "status_only ''pending''" and db = rejected_db
      and today = 100 and oid = 30 and pk = 20 and partial = True]
  note A' = staff_update [where u = admin_user and q = "?q" and d = design_c1_analyzed
      and body = "status_only ''accepted''" and db = rejected_db
      and today = 100 and oid = 30 and pk = 20 and partial = True]
  note B = staff_update [where u = staff_customer and q = "?q" and d = design_c1_analyzed
      and body = "status_only ''pending''" and db = rejected_db
      and today = 100 and oid = 30 and pk = 20 and partial = True]
  note C = staff_update [where u = staff_manufacturer and q = "?q" and d = design_c1_analyzed
      and body = "status_only ''pending''" and db = rejected_db
      and today = 100 and oid = 30 and pk = 20 and partial = True]
  have 0: "status ?q = REJECTED" by simp
  have 1: "CanUpdateQuote_has_object_permission (Some admin_user) ?q design_c1_analyzed
             (status_only ''pending'') = Allow"
    using A st by blast
  have 2: "QuoteDetailView_update True 100 30 rejected_db (Some staff_customer) 20 (status_only ''accepted'')
       = Inr \<lparr>designs = [design_c1_analyzed\<lparr>design_status := ORDERED\<rparr>, design_c1_pending],
              quotes = [quote_mf1_design_c1\<lparr>status := ACCEPTED\<rparr>],
              orders = [first_order]\<rparr>"
    using B [THEN conjunct2, THEN conjunct1, rule_format, OF st(2) g f(7,8,1,2,3) day]
    by (simp add: rejected_db_def first_order_def fixture_defs)
  have 3: "\<exists>msg. QuoteDetailView_update True 100 30 rejected_db (Some admin_user) 20
               (status_only ''accepted'') = Inl (ValidationFailed msg)"
    using A' [THEN conjunct2, THEN conjunct2, THEN conjunct1] st g f by blast
  have 4: "QuoteDetailView_update True 100 30 rejected_db (Some staff_manufacturer) 20
        (status_only ''accepted'')
       = Inl (ValidationFailed ''Manufacturer cannot change status to accepted this way.'')"
    using C [THEN conjunct2, THEN conjunct2, THEN conjunct2, THEN conjunct1] st g f by blast
  have 5: "QuoteDetailView_update True 100 30 rejected_db (Some staff_customer) 20 (status_only ''accepted'')
       = Inr (perform_update 100 30 rejected_db (?q, design_c1_analyzed) accept_data)"
    using B [THEN conjunct2, THEN conjunct2, THEN conjunct2, THEN conjunct2] st g f by blast
  show ?thesis using st 0 1 2 3 4 5 by blast
qed

text \<open>
  The claim C9 as stated fails for the administrator of the tests, who is staff and
  neither the owner of the design nor the manufacturer of the quote: the permission is
  granted, but the PATCH of the rejected quote to accepted ends with the serializer's
  validation error, and no order is created.
\<close>

theorem staff_update_counterexample:
  "is_staff admin_user
   \<and> status (quote_mf1_design_c1\<lparr>status := REJECTED\<rparr>) = REJECTED
   \<and> get_object (setUp\<lparr>quotes := [quote_mf1_design_c1\<lparr>status := REJECTED\<rparr>]\<rparr>) 20
       = Some (quote_mf1_design_c1\<lparr>status := REJECTED\<rparr>, design_c1_analyzed)
   \<and> CanUpdateQuote_has_object_permission (Some admin_user)
        (quote_mf1_design_c1\<lparr>status := REJECTED\<rparr>) design_c1_analyzed (status_only ''accepted'')
       = Allow
   \<and> QuoteDetailView_update True 100 30 (setUp\<lparr>quotes := [quote_mf1_design_c1\<lparr>status := REJECTED\<rparr>]\<rparr>)
        (Some admin_user) 20 (status_only ''accepted'')
       = Inl (ValidationFailed ''You do not have permission to change the status of this quote.'')"
  by (simp add: update_defs fixture_defs)

subsection \<open>Pricing: the decimal context\<close>

text \<open>
  \<open>ndigits\<close> counts the digits, and \<open>adjusted x\<close> is the exponent of the leading digit
  of \<open>x\<close>: \<open>10 ^ adjusted x \<le> |x| < 10 ^ (adjusted x + 1)\<close>.
\<close>

declare ndigits.simps [simp del]

lemma ndigits_pos: "1 \<le> ndigits n"
proof (induction n rule: ndigits.induct)
  case (1 n)
  show ?case
  proof (cases "n < 10")
    case True
    then show ?thesis by (subst ndigits.simps) simp
  next
    case False
    then show ?thesis using 1 [OF False] by (subst ndigits.simps) simp
  qed
qed

lemma ndigits_bounds:
  assumes "1 \<le> n"
  shows "10 ^ nat (ndigits n - 1) \<le> n \<and> n < 10 ^ nat (ndigits n)"
  using assms
proof (induction n rule: ndigits.induct)
  case (1 n)
  show ?case
  proof (cases "n < 10")
    case True
    then show ?thesis using 1(2) by (subst (1 2) ndigits.simps) simp
  next
    case False
    then have h: "1 \<le> n div 10" by simp
    note ih = 1(1) [OF False h]
    have p: "0 \<le> ndigits (n div 10) - 1" using ndigits_pos [of "n div 10"] by simp
    have e: "ndigits n = 1 + ndigits (n div 10)" using False by (subst ndigits.simps) simp
    have a: "nat (ndigits n - 1) = Suc (nat (ndigits (n div 10) - 1))"
      unfolding e using p by simp
    have b: "nat (ndigits n) = Suc (nat (ndigits (n div 10)))"
      unfolding e using ndigits_pos [of "n div 10"] by simp
    have "10 * 10 ^ nat (ndigits (n div 10) - 1) \<le> 10 * (n div 10)" using ih by simp
    also have "\<dots> \<le> n" by simp
    finally have l: "10 ^ nat (ndigits n - 1) \<le> n" unfolding a by simp
    have "n div 10 + 1 \<le> 10 ^ nat (ndigits (n div 10))" using ih by simp
    then have "10 * (n div 10 + 1) \<le> 10 * 10 ^ nat (ndigits (n div 10))" by simp
    moreover have "n < 10 * (n div 10 + 1)" by simp
    ultimately have u: "n < 10 ^ nat (ndigits n)" unfolding b by simp
    show ?thesis using l u by simp
  qed
qed

lemma adjusted_le:
  assumes "x \<noteq> 0"
  shows "10 powi adjusted x \<le> \<bar>x\<bar>"
proof (cases "1 \<le> \<bar>x\<bar>")
  case True
  then have f: "1 \<le> \<lfloor>\<bar>x\<bar>\<rfloor>" by simp
  have a: "adjusted x = ndigits \<lfloor>\<bar>x\<bar>\<rfloor> - 1" using True unfolding adjusted_def by simp
  have p: "0 \<le> ndigits \<lfloor>\<bar>x\<bar>\<rfloor> - 1" using ndigits_pos [of "\<lfloor>\<bar>x\<bar>\<rfloor>"] by simp
  have "(10::int) ^ nat (ndigits \<lfloor>\<bar>x\<bar>\<rfloor> - 1) \<le> \<lfloor>\<bar>x\<bar>\<rfloor>" using ndigits_bounds [OF f] by simp
  then have "(of_int ((10::int) ^ nat (ndigits \<lfloor>\<bar>x\<bar>\<rfloor> - 1)) :: rat) \<le> of_int \<lfloor>\<bar>x\<bar>\<rfloor>"
    by (simp only: of_int_le_iff)
  also have "\<dots> \<le> \<bar>x\<bar>" by simp
  finally have "(10::rat) ^ nat (ndigits \<lfloor>\<bar>x\<bar>\<rfloor> - 1) \<le> \<bar>x\<bar>" by simp
  then show ?thesis unfolding a using p by (simp add: power_int_def)
next
  case False
  let ?N = "\<lceil>1 / \<bar>x\<bar>\<rceil> - 1"
  have x: "0 < \<bar>x\<bar>" "\<bar>x\<bar> < 1" using assms False by simp_all
  then have "1 < 1 / \<bar>x\<bar>" by simp
  then have "1 < \<lceil>1 / \<bar>x\<bar>\<rceil>" by (simp add: less_ceiling_iff)
  then have n: "1 \<le> ?N" by simp
  have a: "adjusted x = - ndigits ?N" using False unfolding adjusted_def by simp
  have "?N + 1 \<le> 10 ^ nat (ndigits ?N)" using ndigits_bounds [OF n] by simp
  then have "(of_int (?N + 1) :: rat) \<le> of_int (10 ^ nat (ndigits ?N))"
    by (simp only: of_int_le_iff)
  moreover have "1 / \<bar>x\<bar> \<le> of_int (?N + 1)" by simp
  ultimately have "1 / \<bar>x\<bar> \<le> of_int (10 ^ nat (ndigits ?N))" by linarith
  then have "1 / \<bar>x\<bar> \<le> 10 ^ nat (ndigits ?N)" by simp
  then have "1 \<le> 10 ^ nat (ndigits ?N) * \<bar>x\<bar>" using x(1) by (simp add: field_simps)
  then have "1 / 10 ^ nat (ndigits ?N) \<le> \<bar>x\<bar>" by (simp add: field_simps)
  moreover have "(10::rat) powi (- ndigits ?N) = 1 / 10 ^ nat (ndigits ?N)"
    using ndigits_pos [of ?N] by (simp add: power_int_def field_simps)
  ultimately show ?thesis unfolding a by simp
qed

lemma adjusted_less:
  assumes "x \<noteq> 0"
  shows "\<bar>x\<bar> < 10 powi (adjusted x + 1)"
proof (cases "1 \<le> \<bar>x\<bar>")
  case True
  then have f: "1 \<le> \<lfloor>\<bar>x\<bar>\<rfloor>" by simp
  have a: "adjusted x + 1 = ndigits \<lfloor>\<bar>x\<bar>\<rfloor>" using True unfolding adjusted_def by simp
  have "\<lfloor>\<bar>x\<bar>\<rfloor> + 1 \<le> (10::int) ^ nat (ndigits \<lfloor>\<bar>x\<bar>\<rfloor>)" using ndigits_bounds [OF f] by simp
  then have "(of_int (\<lfloor>\<bar>x\<bar>\<rfloor> + 1) :: rat) \<le> of_int ((10::int) ^ nat (ndigits \<lfloor>\<bar>x\<bar>\<rfloor>))"
    by (simp only: of_int_le_iff)
  moreover have "\<bar>x\<bar> < of_int (\<lfloor>\<bar>x\<bar>\<rfloor> + 1)" by linarith
  ultimately have "\<bar>x\<bar> < 10 ^ nat (ndigits \<lfloor>\<bar>x\<bar>\<rfloor>)" by simp
  then show ?thesis unfolding a using ndigits_pos [of "\<lfloor>\<bar>x\<bar>\<rfloor>"] by (simp add: power_int_def)
next
  case False
  let ?N = "\<lceil>1 / \<bar>x\<bar>\<rceil> - 1"
  have x: "0 < \<bar>x\<bar>" "\<bar>x\<bar> < 1" using assms False by simp_all
  then have "1 < 1 / \<bar>x\<bar>" by simp
  then have "1 < \<lceil>1 / \<bar>x\<bar>\<rceil>" by (simp add: less_ceiling_iff)
  then have n: "1 \<le> ?N" by simp
  have a: "adjusted x + 1 = - (ndigits ?N - 1)" using False unfolding adjusted_def by simp
  have p: "0 \<le> ndigits ?N - 1" using ndigits_pos [of ?N] by simp
  have "(10::int) ^ nat (ndigits ?N - 1) \<le> ?N" using ndigits_bounds [OF n] by simp
  then have "(of_int ((10::int) ^ nat (ndigits ?N - 1)) :: rat) \<le> of_int ?N"
    by (simp only: of_int_le_iff)
  moreover have "of_int ?N < 1 / \<bar>x\<bar>" by linarith
  ultimately have "10 ^ nat (ndigits ?N - 1) < 1 / \<bar>x\<bar>" by simp
  then have "10 ^ nat (ndigits ?N - 1) * \<bar>x\<bar> < 1" using x(1) by (simp add: field_simps)
  then have "\<bar>x\<bar> < 1 / 10 ^ nat (ndigits ?N - 1)" by (simp add: field_simps)
  moreover have "(10::rat) powi (- (ndigits ?N - 1)) = 1 / 10 ^ nat (ndigits ?N - 1)"
    using p by (simp add: power_int_def field_simps)
  ultimately show ?thesis unfolding a by simp
qed



lemma round_half_even_of_int: "round_half_even (of_int k) = k"
  unfolding round_half_even_def by simp


lemma round_half_up_of_int: "round_half_up (of_int k) = k"
proof -
  have "\<lfloor>(of_int k :: rat) + 1 / 2\<rfloor> = k" "\<lfloor>- (of_int k :: rat) + 1 / 2\<rfloor> = - k"
    by (simp_all add: floor_eq_iff)
  then show ?thesis unfolding round_half_up_def by simp
qed



lemma Decimal_fix_exact:
  assumes "x = of_int c * 10 powi e" and "\<bar>c\<bar> < 10 ^ prec" and "Etiny \<le> e"
    and "e + int prec \<le> Emax + 1"
  shows "Decimal_fix x = Inr x"
proof (cases "x = 0")
  case True
  then show ?thesis unfolding Decimal_fix_def by simp
next
  case False
  define q where "q = max (adjusted x - (int prec - 1)) Etiny"
  have "(of_int \<bar>c\<bar> :: rat) < of_int (10 ^ prec)" using assms(2) by (simp only: of_int_less_iff)
  then have "\<bar>x\<bar> < 10 ^ prec * 10 powi e"
    unfolding assms(1) by (simp add: abs_mult)
  also have "\<dots> = 10 powi (int prec + e)" by (simp add: power_int_add)
  finally have "(10::rat) powi adjusted x < 10 powi (int prec + e)"
    using adjusted_le [OF False] by simp
  then have a: "adjusted x < int prec + e"
    using power_int_increasing [of "int prec + e" "adjusted x" "10::rat"] by (cases "adjusted x < int prec + e") auto
  then have qe: "q \<le> e" unfolding q_def using assms(3) by simp
  have "x / 10 powi q = of_int c * (10 powi e / 10 powi q)" unfolding assms(1) by simp
  also have "\<dots> = of_int c * 10 powi (e - q)" by (simp add: power_int_diff)
  also have "\<dots> = of_int (c * 10 ^ nat (e - q))" using qe by (simp add: power_int_def)
  finally have "of_int (round_half_even (x / 10 powi q)) = x / 10 powi q"
    by (simp only: round_half_even_of_int)
  then have r: "of_int (round_half_even (x / 10 powi q)) * 10 powi q = x" by simp
  have "adjusted x \<le> Emax" using a assms(4) by simp
  then show ?thesis
    using False unfolding Decimal_fix_def Let_def q_def [symmetric] r by simp
qed





lemma quantize_exact:
  assumes "x = of_int k / 100" and "\<bar>k\<bar> < 10 ^ prec"
  shows "quantize x = Inr x"
proof -
  have "round_half_up (x * 100) = k" unfolding assms(1) by (simp add: round_half_up_of_int)
  then show ?thesis using assms unfolding quantize_def Let_def by simp
qed

subsection \<open>Pricing: the function\<close>

lemmas pricing_defs = calculate_quote_price_def material_cost_section_def
  machine_time_cost_section_def total_price_section_def lead_time_section_def
  get_pricing_factors_def get_material_properties_map_def get_machining_factors_def
  Decimal_get_def Decimal_mul_def Decimal_add_def Decimal_truediv_def

lemmas context_defs = prec_def Etiny_def Emax_def



text \<open>
  C7. For volume 100, density 2, unit cost 10, base time cost 5, time multiplier 2,
  complexity score 3 and mark-up 1.5 the function returns the price 19.50 with no
  errors; its details record the material cost 2.00, the machine-time cost 11.00 and
  the subtotal 13.00.
\<close>

theorem pricing_example:
  "calculate_quote_price example_design example_manufacturer =
     Inr \<lparr>pd_price_usd = Some (1950 / 100),
          pd_estimated_lead_time_days = Some 7,
          calculation_details =
            [(''material_volume_cm3'', 100),
             (''material_density_g_cm3'', 2),
             (''material_cost_usd_kg'', 10),
             (''calculated_material_cost_usd'', 200 / 100),
             (''machining_base_time_cost_unit'', 5),
             (''design_complexity_score'', 3),
             (''machining_time_multiplier_cost_unit'', 2),
             (''calculated_machine_time_cost_units'', 1100 / 100),
             (''total_price_before_markup_usd'', 1300 / 100),
             (''manufacturer_markup_factor'', 15 / 10),
             (''final_total_price_usd'', 1950 / 100),
             (''estimated_lead_time_days'', 7)],
          errors = []\<rparr>"
proof -
  have f: "Decimal_fix 200 = Inr 200" "Decimal_fix (1 / 100) = Inr (1 / 100)"
    "Decimal_fix 2 = Inr 2" "Decimal_fix 6 = Inr 6" "Decimal_fix 11 = Inr 11"
    "Decimal_fix 13 = Inr 13" "Decimal_fix (39 / 2) = Inr (39 / 2)"
    using Decimal_fix_exact [of 200 200 0] Decimal_fix_exact [of "1 / 100" 1 "- 2"]
      Decimal_fix_exact [of 2 2 0] Decimal_fix_exact [of 6 6 0] Decimal_fix_exact [of 11 11 0]
      Decimal_fix_exact [of 13 13 0] Decimal_fix_exact [of "39 / 2" 195 "- 1"]
    by (simp_all add: context_defs)
  have q: "quantize 2 = Inr 2" "quantize 11 = Inr 11" "quantize 13 = Inr 13"
    "quantize (39 / 2) = Inr (39 / 2)"
    using quantize_exact [of 2 200] quantize_exact [of 11 1100] quantize_exact [of 13 1300]
      quantize_exact [of "39 / 2" 1950]
    by (simp_all add: context_defs)
  show ?thesis
    by (simp add: pricing_defs example_design_def example_manufacturer_def
        design_c1_analyzed_def Let_def f q)
qed





































end
